theory Spec2Isabelle
  imports Complex_Main "HOL-Library.Multiset"
begin

text \<open>
  A model of the admin backend: the user schema with its save hook and password
  check (\<^verbatim>\<open>utilisateur.modele\<close>) and the five admin handlers
  (\<^verbatim>\<open>admin.controlleur\<close>). A handler is a function from the request and the store to the
  response and the new store. Mongoose, MongoDB and bcryptjs are libraries: the model
  gives the operations the handlers call the behaviour their documentation states, and
  says so at each definition; what it does not follow of them is a parameter.
\<close>

section \<open>Data model\<close>

text \<open>
  The User document of \<^verbatim>\<open>UserSchema\<close> / \<^verbatim>\<open>IUser\<close>. The Mongo \<^verbatim>\<open>_id\<close> is the field
  \<open>user_id\<close> (an identifier cannot start with an underscore): an ObjectId, written
  as its 24 lower-case hexadecimal digits. Dates are milliseconds since the epoch.
  JavaScript numbers are IEEE doubles; the model computes with exact integers, which
  agree with the doubles as long as every value stays within \<open>2 ^ 53\<close> in absolute
  value, and the statements about numbers say where they rely on that range.
\<close>

record user =
  user_id :: string
  firstName :: string
  lastName :: string
  email :: string
  phone :: string
  password :: string
  role :: string
  points :: int
  bio :: "string option"
  createdAt :: int

text \<open>
  Modelled from the spec: the Game model (\<^verbatim>\<open>modeles/game.modele\<close> is not among the
  sources). Its fields are the ones \<^verbatim>\<open>getAllGames\<close> reads; \<open>userId\<close> is a nullable
  reference to a user before \<^verbatim>\<open>populate\<close> (\<open>'r = string\<close>) and the selected user
  fields after it.
\<close>

record 'r game =
  game_id :: string
  userId :: "'r option"
  number :: int
  result :: string
  pointsChange :: int
  balanceAfter :: int
  game_createdAt :: int

text \<open>What \<^verbatim>\<open>populate('userId', 'firstName lastName')\<close> puts in place of the reference.\<close>

record user_ref =
  ref_id :: string
  ref_firstName :: string
  ref_lastName :: string

text \<open>One element of \<^verbatim>\<open>formattedGames\<close>.\<close>

record formatted_game =
  f_id :: string
  f_user :: "user_ref option"
  f_number :: int
  f_result :: string
  f_pointsChange :: int
  newBalance :: int
  f_createdAt :: int

record pagination =
  total :: int
  page :: int
  pages :: int
  limit :: int

text \<open>
  The scalar values of JSON (null is left out: the user record holds strings and
  numbers, as \<^verbatim>\<open>IUser\<close> declares, and cannot hold a null). A plain JavaScript object
  whose properties are scalars is an association list from property names to values,
  so that the presence of a property can be stated; \<^verbatim>\<open>toObject()\<close> and a projected
  query result are such objects (Mongoose's version key is left out of them).
\<close>

datatype jsval = JBool bool | JNum int | JStr string

type_synonym json_obj = "(string \<times> jsval) list"

subsection \<open>Responses\<close>

text \<open>The fixed message of each response, in the order the handlers use them.\<close>

datatype message =
    GamesFetched | GamesFailed
  | UsersFetched | UsersFailed
  | FieldsRequired | EmailExists | UserCreated | CreateFailed
  | UserNotFound | UserUpdated | UpdateFailed
  | OwnAccount | UserDeleted | DeleteFailed

datatype payload =
    PGames "formatted_game list" pagination
  | PUsers "json_obj list"
  | PUser json_obj

text \<open>
  Modelled from the spec: \<^verbatim>\<open>ApiResponse\<close> (\<^verbatim>\<open>utilitaires/reponseApi\<close> is not among the
  sources), the envelope \<^verbatim>\<open>{statusCode, message, data?}\<close>.
\<close>

record api_response =
  statusCode :: int
  message :: message
  data :: "payload option"

definition ApiResponse :: "int \<Rightarrow> message \<Rightarrow> payload option \<Rightarrow> api_response" where
  "ApiResponse c m d = \<lparr>statusCode = c, message = m, data = d\<rparr>"

text \<open>\<^verbatim>\<open>res.status(c).json(b)\<close>.\<close>

record response =
  status :: int
  json :: api_response

definition respond :: "int \<Rightarrow> api_response \<Rightarrow> response" where
  "respond c b = \<lparr>status = c, json = b\<rparr>"

subsection \<open>The store\<close>

text \<open>
  The two collections, in insertion order, and the log of the model calls made so far:
  the log lets a statement say that a handler never reached the store. The store is
  reliable: an operation fails only for a reason the data gives (a value that cannot
  be cast, validation, a duplicate key, a negative skip), never for a lost connection.
\<close>

datatype store_call =
    GameFind int int
  | GameCountDocuments
  | UserFind
  | UserFindOne string
  | UserSave string
  | UserFindByIdAndUpdate string
  | UserFindByIdAndDelete string

datatype store_error =
  CastError | ValidationError | DuplicateKey | DocumentNotFound | BadValue | ImmutableField

record store =
  users :: "user list"
  games :: "string game list"
  calls :: "store_call list"

definition logCall :: "store_call \<Rightarrow> store \<Rightarrow> store" where
  "logCall c s = s\<lparr>calls := calls s @ [c]\<rparr>"

definition findById :: "user list \<Rightarrow> string \<Rightarrow> user option" where
  "findById us i = find (\<lambda>u. user_id u = i) us"

fun replaceById :: "string \<Rightarrow> user \<Rightarrow> user list \<Rightarrow> user list" where
  "replaceById i v [] = []"
| "replaceById i v (u # us) = (if user_id u = i then v # us else u # replaceById i v us)"

fun removeById :: "string \<Rightarrow> user list \<Rightarrow> user list" where
  "removeById i [] = []"
| "removeById i (u # us) = (if user_id u = i then us else u # removeById i us)"

text \<open>
  Mongoose casts the identifier a query is given to an ObjectId before it looks
  anything up: a string of 24 hexadecimal digits, in either case, is the ObjectId
  with those digits, and any other string is a cast error (\<open>None\<close>). (Drivers before
  bson 6 also took any string of 12 characters; that reading is left out.)
\<close>

definition isHexDigit :: "char \<Rightarrow> bool" where
  "isHexDigit c =
     (let n = (of_char c :: nat)
      in (48 \<le> n \<and> n \<le> 57) \<or> (97 \<le> n \<and> n \<le> 102) \<or> (65 \<le> n \<and> n \<le> 70))"

definition toLowerCase :: "char \<Rightarrow> char" where
  "toLowerCase c =
     (let n = (of_char c :: nat) in if 65 \<le> n \<and> n \<le> 90 then char_of (n + 32) else c)"

definition castObjectId :: "string \<Rightarrow> string option" where
  "castObjectId v =
     (if length v = 24 \<and> list_all isHexDigit v then Some (map toLowerCase v) else None)"

section \<open>JavaScript helpers\<close>

text \<open>
  A query parameter reaches \<^verbatim>\<open>parseInt\<close> as a JavaScript string: a list of UTF-16 code
  units (numbers from 0 to 65535). \<open>js\<close> gives the code units of an ASCII literal.
\<close>

type_synonym js_string = "int list"

definition js :: "string \<Rightarrow> js_string" where
  "js s = map of_char s"

text \<open>
  \<^verbatim>\<open>parseInt(string)\<close> with no radix (ECMAScript): leading white space and line
  terminators are skipped, a sign is read, a \<^verbatim>\<open>0x\<close> prefix selects radix 16, and the
  longest run of digits is the value; \<open>None\<close> is \<^verbatim>\<open>NaN\<close>. The white space is
  ECMAScript's: tab, line feed, vertical tab, form feed, carriage return, space,
  U+00A0, U+FEFF, the space separators U+1680, U+2000 to U+200A, U+202F, U+205F and
  U+3000, and the line and paragraph separators U+2028 and U+2029.
\<close>

definition isWhiteSpace :: "int \<Rightarrow> bool" where
  "isWhiteSpace c =
     (c \<in> set [0x09, 0x0A, 0x0B, 0x0C, 0x0D, 0x20, 0xA0, 0x1680, 0x2028, 0x2029, 0x202F,
                0x205F, 0x3000, 0xFEFF]
      \<or> (0x2000 \<le> c \<and> c \<le> 0x200A))"

definition digitValue :: "int \<Rightarrow> nat option" where
  "digitValue n =
     (if 48 \<le> n \<and> n \<le> 57 then Some (nat (n - 48))
      else if 97 \<le> n \<and> n \<le> 122 then Some (nat (n - 87))
      else if 65 \<le> n \<and> n \<le> 90 then Some (nat (n - 55))
      else None)"

definition isRadixDigit :: "nat \<Rightarrow> int \<Rightarrow> bool" where
  "isRadixDigit R c = (case digitValue c of None \<Rightarrow> False | Some d \<Rightarrow> d < R)"

definition digitsValue :: "nat \<Rightarrow> js_string \<Rightarrow> nat" where
  "digitsValue R z = foldl (\<lambda>a c. a * R + (case digitValue c of None \<Rightarrow> 0 | Some d \<Rightarrow> d)) 0 z"

definition parseInt :: "js_string \<Rightarrow> int option" where
  "parseInt inputString =
     (let s1 = dropWhile isWhiteSpace inputString;
          sign = (if take 1 s1 = js ''-'' then - 1 else 1 :: int);
          s2 = (if take 1 s1 = js ''+'' \<or> take 1 s1 = js ''-'' then drop 1 s1 else s1);
          hex = (take 2 s2 = js ''0x'' \<or> take 2 s2 = js ''0X'');
          R = (if hex then 16 else 10);
          s3 = (if hex then drop 2 s2 else s2);
          z = takeWhile (isRadixDigit R) s3
      in if z = [] then None else Some (sign * int (digitsValue R z)))"

text \<open>
  A query parameter is a string or absent; \<^verbatim>\<open>parseInt(undefined)\<close> parses the string
  \<^verbatim>\<open>"undefined"\<close>.
\<close>

definition toString :: "js_string option \<Rightarrow> js_string" where
  "toString v = (case v of None \<Rightarrow> js ''undefined'' | Some s \<Rightarrow> s)"

text \<open>\<^verbatim>\<open>n || d\<close> on a number: \<^verbatim>\<open>NaN\<close> and 0 are falsy.\<close>

definition orDefault :: "int option \<Rightarrow> int \<Rightarrow> int" where
  "orDefault n d = (case n of None \<Rightarrow> d | Some k \<Rightarrow> if k = 0 then d else k)"

text \<open>\<^verbatim>\<open>!v\<close> on a string or \<^verbatim>\<open>undefined\<close>: the absent value and the empty string are falsy.\<close>

definition falsy :: "string option \<Rightarrow> bool" where
  "falsy v = (case v of None \<Rightarrow> True | Some s \<Rightarrow> s = [])"

text \<open>\<^verbatim>\<open>v || d\<close> on a string.\<close>

definition orElse :: "string option \<Rightarrow> string \<Rightarrow> string" where
  "orElse v d = (case v of None \<Rightarrow> d | Some s \<Rightarrow> if s = [] then d else s)"

text \<open>\<^verbatim>\<open>Math.ceil(a / b)\<close>.\<close>

definition Math_ceil_div :: "int \<Rightarrow> int \<Rightarrow> int" where
  "Math_ceil_div a b = \<lceil>real_of_int a / real_of_int b\<rceil>"


text \<open>\<^verbatim>\<open>String(n)\<close> of an integer (below \<open>10 ^ 21\<close>, where JavaScript still writes every digit).\<close>

fun digitsOfNat :: "nat \<Rightarrow> string" where
  "digitsOfNat n =
     (if n < 10 then [char_of (48 + n)]
      else digitsOfNat (n div 10) @ [char_of (48 + n mod 10)])"

declare digitsOfNat.simps [simp del]

definition numberToString :: "int \<Rightarrow> string" where
  "numberToString n = (if n < 0 then CHR ''-'' # digitsOfNat (nat (- n)) else digitsOfNat (nat n))"

section \<open>The user model\<close>

text \<open>
  \<^verbatim>\<open>bcryptjs\<close> is a library: its two functions are parameters. \<open>bcrypt_hash p r s\<close> is
  \<^verbatim>\<open>bcrypt.hash(p, r)\<close> when the salt it draws is \<open>s\<close>; \<open>bcrypt_compare c h\<close> is
  \<^verbatim>\<open>bcrypt.compare(c, h)\<close>.
\<close>

record bcrypt =
  bcrypt_hash :: "string \<Rightarrow> nat \<Rightarrow> string \<Rightarrow> string"
  bcrypt_compare :: "string \<Rightarrow> string \<Rightarrow> bool"

text \<open>
  A Mongoose document: the field values, whether it has been inserted yet, and the
  paths Mongoose tracks as modified.
\<close>

record user_doc =
  doc :: user
  isNew :: bool
  modifiedPaths :: "string list"

definition isModified :: "user_doc \<Rightarrow> string \<Rightarrow> bool" where
  "isModified d p = (p \<in> set (modifiedPaths d))"

text \<open>What a request cannot choose: the generated ObjectId, the clock, the salt.\<close>

record env =
  new_oid :: string
  now :: int
  salt :: string

text \<open>
  \<^verbatim>\<open>new User({firstName, lastName, email, phone, password, role, points})\<close>: the given
  paths are set (and so modified), \<open>createdAt\<close> takes its default \<^verbatim>\<open>Date.now\<close>,
  \<open>bio\<close> stays unset.
\<close>

definition new_User ::
  "env \<Rightarrow> string \<Rightarrow> string \<Rightarrow> string \<Rightarrow> string \<Rightarrow> string \<Rightarrow> string \<Rightarrow> int \<Rightarrow> user_doc" where
  "new_User e fname lname em ph pw rl pts =
     \<lparr>doc = \<lparr>user_id = new_oid e, firstName = fname, lastName = lname, email = em, phone = ph,
                 password = pw, role = rl, points = pts, bio = None, createdAt = now e\<rparr>,
      isNew = True,
      modifiedPaths = [''firstName'', ''lastName'', ''email'', ''phone'', ''password'',
                       ''role'', ''points'']\<rparr>"

text \<open>
  The schema's validators: \<^verbatim>\<open>required: true\<close> on five string paths (an empty string
  fails it) and \<^verbatim>\<open>enum: ['user', 'admin']\<close> on \<open>role\<close>.
\<close>

definition validates :: "user \<Rightarrow> bool" where
  "validates u =
     (firstName u \<noteq> [] \<and> lastName u \<noteq> [] \<and> email u \<noteq> [] \<and> phone u \<noteq> [] \<and>
      password u \<noteq> [] \<and> (role u = ''user'' \<or> role u = ''admin''))"

text \<open>\<^verbatim>\<open>UserSchema.pre('save')\<close>.\<close>

definition pre_save :: "bcrypt \<Rightarrow> string \<Rightarrow> user_doc \<Rightarrow> user_doc" where
  "pre_save bc slt d =
     (if \<not> isModified d ''password'' then d
      else d\<lparr>doc := (doc d)\<lparr>password := bcrypt_hash bc (password (doc d)) 12 slt\<rparr>\<rparr>)"

text \<open>\<^verbatim>\<open>UserSchema.methods.comparePassword\<close>.\<close>

definition comparePassword :: "bcrypt \<Rightarrow> user \<Rightarrow> string \<Rightarrow> bool" where
  "comparePassword bc this candidatePassword =
     bcrypt_compare bc candidatePassword (password this)"

text \<open>A stored path of the document, copied onto the stored record by a save.\<close>

definition copyPath :: "user \<Rightarrow> string \<Rightarrow> user \<Rightarrow> user" where
  "copyPath src p tgt =
     (if p = ''firstName'' then tgt\<lparr>firstName := firstName src\<rparr>
      else if p = ''lastName'' then tgt\<lparr>lastName := lastName src\<rparr>
      else if p = ''email'' then tgt\<lparr>email := email src\<rparr>
      else if p = ''phone'' then tgt\<lparr>phone := phone src\<rparr>
      else if p = ''password'' then tgt\<lparr>password := password src\<rparr>
      else if p = ''role'' then tgt\<lparr>role := role src\<rparr>
      else if p = ''points'' then tgt\<lparr>points := points src\<rparr>
      else if p = ''bio'' then tgt\<lparr>bio := bio src\<rparr>
      else if p = ''createdAt'' then tgt\<lparr>createdAt := createdAt src\<rparr>
      else tgt)"

definition copyPaths :: "string list \<Rightarrow> user \<Rightarrow> user \<Rightarrow> user" where
  "copyPaths ps src tgt = foldr (copyPath src) ps tgt"

text \<open>
  \<^verbatim>\<open>doc.save()\<close>: Mongoose validates, then runs the schema's pre-save hook, then
  writes. A new document is inserted (the unique indexes on \<^verbatim>\<open>_id\<close> and \<open>email\<close>
  reject a duplicate); a document that was loaded has its modified paths written to
  the stored record of the same \<^verbatim>\<open>_id\<close>.
\<close>

definition save :: "bcrypt \<Rightarrow> string \<Rightarrow> user_doc \<Rightarrow> store \<Rightarrow> (store_error + user_doc) \<times> store" where
  "save bc slt d s =
     (let s0 = logCall (UserSave (user_id (doc d))) s in
      if \<not> validates (doc d) then (Inl ValidationError, s0)
      else
        let d' = pre_save bc slt d; u = doc d' in
        if isNew d' then
          (if \<exists>x \<in> set (users s). user_id x = user_id u \<or> email x = email u
           then (Inl DuplicateKey, s0)
           else (Inr (d'\<lparr>isNew := False, modifiedPaths := []\<rparr>), s0\<lparr>users := users s @ [u]\<rparr>))
        else
          (case findById (users s) (user_id u) of
             None \<Rightarrow> (Inl DocumentNotFound, s0)
           | Some old \<Rightarrow>
               let new = copyPaths (modifiedPaths d') u old in
               if \<exists>x \<in> set (users s). user_id x \<noteq> user_id u \<and> email x = email new
               then (Inl DuplicateKey, s0)
               else (Inr (d'\<lparr>modifiedPaths := []\<rparr>),
                     s0\<lparr>users := replaceById (user_id u) new (users s)\<rparr>)))"

text \<open>\<^verbatim>\<open>doc.toObject()\<close>: every set path, \<open>password\<close> included.\<close>

definition toObject :: "user \<Rightarrow> json_obj" where
  "toObject u =
     [(''_id'', JStr (user_id u)), (''firstName'', JStr (firstName u)),
      (''lastName'', JStr (lastName u)), (''email'', JStr (email u)),
      (''phone'', JStr (phone u)), (''password'', JStr (password u)),
      (''role'', JStr (role u)), (''points'', JNum (points u))]
     @ (case bio u of None \<Rightarrow> [] | Some b \<Rightarrow> [(''bio'', JStr b)])
     @ [(''createdAt'', JNum (createdAt u))]"

text \<open>\<^verbatim>\<open>delete obj[k]\<close>.\<close>

definition deleteProperty :: "string \<Rightarrow> json_obj \<Rightarrow> json_obj" where
  "deleteProperty k obj = filter (\<lambda>kv. fst kv \<noteq> k) obj"

text \<open>A query projection that excludes one path (\<^verbatim>\<open>{password: 0}\<close>, \<^verbatim>\<open>select: '-password'\<close>).\<close>

definition projectOut :: "string \<Rightarrow> user \<Rightarrow> json_obj" where
  "projectOut k u = filter (\<lambda>kv. fst kv \<noteq> k) (toObject u)"

definition hasProperty :: "json_obj \<Rightarrow> string \<Rightarrow> bool" where
  "hasProperty obj k = (k \<in> fst ` set obj)"

section \<open>Model operations the handlers call\<close>

text \<open>
  \<^verbatim>\<open>Game.find().sort({createdAt: -1}).skip(skip).limit(limit).populate(...).lean()\<close>.
  The sort is descending on the creation time (games of equal time keep their stored
  order; MongoDB leaves that order open). The server rejects a negative skip. A
  negative limit is read as its absolute value and a limit of 0 as no limit.
  \<^verbatim>\<open>populate\<close> replaces a reference by the \<^verbatim>\<open>_id\<close>, \<open>firstName\<close> and \<open>lastName\<close> of
  the user it finds, and by null when there is none.
\<close>

definition sortByCreatedAtDesc :: "'r game list \<Rightarrow> 'r game list" where
  "sortByCreatedAtDesc gs = sort_key (\<lambda>g. - game_createdAt g) gs"

definition applyLimit :: "int \<Rightarrow> 'a list \<Rightarrow> 'a list" where
  "applyLimit n xs = (if n = 0 then xs else take (nat \<bar>n\<bar>) xs)"

definition selectNames :: "user \<Rightarrow> user_ref" where
  "selectNames u = \<lparr>ref_id = user_id u, ref_firstName = firstName u, ref_lastName = lastName u\<rparr>"

definition populate :: "user list \<Rightarrow> string game \<Rightarrow> user_ref game" where
  "populate us g =
     \<lparr>game_id = game_id g,
      userId = (case userId g of
                  None \<Rightarrow> None
                | Some r \<Rightarrow> (case findById us r of None \<Rightarrow> None | Some u \<Rightarrow> Some (selectNames u))),
      number = number g, result = result g, pointsChange = pointsChange g,
      balanceAfter = balanceAfter g, game_createdAt = game_createdAt g\<rparr>"

definition selectGames :: "int \<Rightarrow> int \<Rightarrow> 'r game list \<Rightarrow> 'r game list" where
  "selectGames skip lmt gs = applyLimit lmt (drop (nat skip) (sortByCreatedAtDesc gs))"

definition Game_find :: "int \<Rightarrow> int \<Rightarrow> store \<Rightarrow> (store_error + user_ref game list) \<times> store" where
  "Game_find skip lmt s =
     (let s0 = logCall (GameFind skip lmt) s in
      if skip < 0 then (Inl BadValue, s0)
      else (Inr (map (populate (users s)) (selectGames skip lmt (games s))), s0))"

definition Game_countDocuments :: "store \<Rightarrow> int \<times> store" where
  "Game_countDocuments s = (int (length (games s)), logCall GameCountDocuments s)"

text \<open>\<^verbatim>\<open>User.find({}, { password: 0 })\<close>.\<close>

definition User_find :: "store \<Rightarrow> json_obj list \<times> store" where
  "User_find s = (map (projectOut ''password'') (users s), logCall UserFind s)"

text \<open>\<^verbatim>\<open>User.findOne({ email })\<close>.\<close>

definition User_findOne :: "string \<Rightarrow> store \<Rightarrow> user option \<times> store" where
  "User_findOne em s = (find (\<lambda>u. email u = em) (users s), logCall (UserFindOne em) s)"

text \<open>
  The body of an update request, as \<^verbatim>\<open>req.body\<close> holds it: a JSON object whose
  property values are scalars or objects of scalars (\<^verbatim>\<open>{"$set": {"bio": "x"}}\<close>). A
  property is looked up with \<open>map_of\<close>; the names of an object are distinct, and a
  list that repeats a name stands for the object with the first of its entries.
\<close>

datatype body_value = Scalar jsval | Object json_obj

type_synonym update_body = "(string \<times> body_value) list"

text \<open>
  What the model does not follow of Mongoose's treatment of an update is a parameter:
  the casts of a string to a number and to a date (\<open>None\<close> is a cast error), and the
  effect of the entries the model hands over, which are the update operators other
  than \<^verbatim>\<open>$set\<close> and the schema paths given an object. \<open>otherUpdates\<close> takes those
  entries and the document found (after the assignments the model makes), and gives
  the document to store or an error.
\<close>

record mongoose =
  numberOfString :: "string \<Rightarrow> int option"
  dateOfString :: "string \<Rightarrow> int option"
  otherUpdates :: "update_body \<Rightarrow> user option \<Rightarrow> store_error + user option"

text \<open>
  The casts of a scalar to the schema types: a String path takes the string itself,
  the digits of a number, \<^verbatim>\<open>true\<close> or \<^verbatim>\<open>false\<close>; a Number path takes the number, 1 or
  0 for a boolean; a Date path takes the number as milliseconds (within the range of
  dates) and rejects a boolean.
\<close>

definition castString :: "jsval \<Rightarrow> string" where
  "castString v =
     (case v of
        JStr s \<Rightarrow> s
      | JNum n \<Rightarrow> numberToString n
      | JBool b \<Rightarrow> (if b then ''true'' else ''false''))"

definition castNumber :: "mongoose \<Rightarrow> jsval \<Rightarrow> int option" where
  "castNumber mg v =
     (case v of
        JNum n \<Rightarrow> Some n
      | JBool b \<Rightarrow> Some (if b then 1 else 0)
      | JStr s \<Rightarrow> numberOfString mg s)"

definition castDate :: "mongoose \<Rightarrow> jsval \<Rightarrow> int option" where
  "castDate mg v =
     (case v of
        JNum n \<Rightarrow> (if \<bar>n\<bar> \<le> 8640000000000000 then Some n else None)
      | JBool b \<Rightarrow> None
      | JStr s \<Rightarrow> dateOfString mg s)"

text \<open>
  How Mongoose reads the body. A property whose name starts with \<^verbatim>\<open>$\<close> is an update
  operator and needs an object (a scalar there is refused); any other property is
  short for a \<^verbatim>\<open>$set\<close> of that path, and takes precedence over the \<^verbatim>\<open>$set\<close> object.
  Paths outside the schema are dropped (strict mode).
\<close>

definition isOperator :: "string \<Rightarrow> bool" where
  "isOperator k = (take 1 k = ''$'')"

definition isObject :: "body_value \<Rightarrow> bool" where
  "isObject v = (case v of Object kvs \<Rightarrow> True | Scalar x \<Rightarrow> False)"

definition setArgument :: "update_body \<Rightarrow> json_obj" where
  "setArgument b = (case map_of b ''$set'' of Some (Object kvs) \<Rightarrow> kvs | _ \<Rightarrow> [])"

definition assigned :: "update_body \<Rightarrow> string \<Rightarrow> jsval option" where
  "assigned b p =
     (case map_of b p of Some (Scalar v) \<Rightarrow> Some v | _ \<Rightarrow> map_of (setArgument b) p)"

definition schemaPaths :: "string list" where
  "schemaPaths = [''_id'', ''firstName'', ''lastName'', ''email'', ''phone'', ''password'',
                  ''role'', ''points'', ''bio'', ''createdAt'']"

definition malformed :: "update_body \<Rightarrow> bool" where
  "malformed b = (\<exists>kv \<in> set b. isOperator (fst kv) \<and> \<not> isObject (snd kv))"

definition handedOver :: "update_body \<Rightarrow> update_body" where
  "handedOver b =
     filter (\<lambda>kv. isObject (snd kv) \<and>
                  ((isOperator (fst kv) \<and> fst kv \<noteq> ''$set'') \<or> fst kv \<in> set schemaPaths)) b"

text \<open>The casts that fail are found before the query is sent.\<close>

definition castFails :: "mongoose \<Rightarrow> update_body \<Rightarrow> bool" where
  "castFails mg b =
     (malformed b \<or>
      (case assigned b ''points'' of None \<Rightarrow> False | Some v \<Rightarrow> castNumber mg v = None) \<or>
      (case assigned b ''createdAt'' of None \<Rightarrow> False | Some v \<Rightarrow> castDate mg v = None))"

definition setString :: "update_body \<Rightarrow> string \<Rightarrow> string \<Rightarrow> string" where
  "setString b p old = (case assigned b p of None \<Rightarrow> old | Some v \<Rightarrow> castString v)"

text \<open>The \<^verbatim>\<open>$set\<close> of every schema path the body assigns.\<close>

definition applyUpdate :: "mongoose \<Rightarrow> update_body \<Rightarrow> user \<Rightarrow> user" where
  "applyUpdate mg b u =
     \<lparr>user_id = user_id u,
      firstName = setString b ''firstName'' (firstName u),
      lastName = setString b ''lastName'' (lastName u),
      email = setString b ''email'' (email u),
      phone = setString b ''phone'' (phone u),
      password = setString b ''password'' (password u),
      role = setString b ''role'' (role u),
      points = (case assigned b ''points'' of
                  None \<Rightarrow> points u
                | Some v \<Rightarrow> (case castNumber mg v of None \<Rightarrow> points u | Some n \<Rightarrow> n)),
      bio = (case assigned b ''bio'' of None \<Rightarrow> bio u | Some v \<Rightarrow> Some (castString v)),
      createdAt = (case assigned b ''createdAt'' of
                     None \<Rightarrow> createdAt u
                   | Some v \<Rightarrow> (case castDate mg v of None \<Rightarrow> createdAt u | Some t \<Rightarrow> t))\<rparr>"

text \<open>MongoDB refuses an update that would give the document another \<^verbatim>\<open>_id\<close>.\<close>

definition changesId :: "update_body \<Rightarrow> user \<Rightarrow> bool" where
  "changesId b u =
     (case assigned b ''_id'' of
        None \<Rightarrow> False
      | Some (JStr v) \<Rightarrow> castObjectId v \<noteq> Some (user_id u)
      | Some other \<Rightarrow> True)"

text \<open>
  The document the update leads to: the body's assignments applied to the document
  found, then whatever the entries handed over do.
\<close>

definition updatedDocument :: "mongoose \<Rightarrow> update_body \<Rightarrow> user option \<Rightarrow> store_error + user option" where
  "updatedDocument mg b found =
     (if handedOver b = [] then Inr (map_option (applyUpdate mg b) found)
      else otherUpdates mg (handedOver b) (map_option (applyUpdate mg b) found))"

text \<open>
  Writing the updated document \<open>v\<close> in place of \<open>u\<close>: the \<^verbatim>\<open>_id\<close> stays, the unique
  index on \<open>email\<close> still holds, and the result is the document without its password
  (\<^verbatim>\<open>new: true, select: '-password'\<close>).
\<close>

definition writeUpdate ::
  "string \<Rightarrow> update_body \<Rightarrow> user \<Rightarrow> user \<Rightarrow> store \<Rightarrow> (store_error + json_obj option) \<times> store" where
  "writeUpdate oid b u v s =
     (let w = v\<lparr>user_id := user_id u\<rparr> in
      if changesId b u then (Inl ImmutableField, s)
      else if email w \<noteq> email u \<and> (\<exists>x \<in> set (users s). user_id x \<noteq> oid \<and> email x = email w)
      then (Inl DuplicateKey, s)
      else (Inr (Some (projectOut ''password'' w)), s\<lparr>users := replaceById oid w (users s)\<rparr>))"

text \<open>
  \<^verbatim>\<open>User.findByIdAndUpdate(id, updateData, { new: true, select: '-password' })\<close>: the
  identifier and the body are cast, the document is looked up and updated; no
  validator and no save hook runs. The result is the updated document, or null when
  there is none.
\<close>

definition User_findByIdAndUpdate ::
  "mongoose \<Rightarrow> string \<Rightarrow> update_body \<Rightarrow> store \<Rightarrow> (store_error + json_obj option) \<times> store" where
  "User_findByIdAndUpdate mg i b s =
     (let s0 = logCall (UserFindByIdAndUpdate i) s in
      case castObjectId i of
        None \<Rightarrow> (Inl CastError, s0)
      | Some oid \<Rightarrow>
          if castFails mg b then (Inl CastError, s0)
          else
            (case updatedDocument mg b (findById (users s) oid) of
               Inl err \<Rightarrow> (Inl err, s0)
             | Inr None \<Rightarrow> (Inr None, s0)
             | Inr (Some v) \<Rightarrow>
                 (case findById (users s) oid of
                    None \<Rightarrow> (Inr None, s0)
                  | Some u \<Rightarrow> writeUpdate oid b u v s0)))"

text \<open>
  \<^verbatim>\<open>User.findByIdAndDelete(id)\<close>: the identifier is cast, then the document with that
  \<^verbatim>\<open>_id\<close> is removed and returned, or null.
\<close>

definition User_findByIdAndDelete :: "string \<Rightarrow> store \<Rightarrow> (store_error + user option) \<times> store" where
  "User_findByIdAndDelete i s =
     (let s0 = logCall (UserFindByIdAndDelete i) s in
      case castObjectId i of
        None \<Rightarrow> (Inl CastError, s0)
      | Some oid \<Rightarrow> (Inr (findById (users s) oid), s0\<lparr>users := removeById oid (users s)\<rparr>))"

section \<open>The admin handlers\<close>

record games_query =
  query_page :: "js_string option"
  query_limit :: "js_string option"

definition formatGame :: "user_ref game \<Rightarrow> formatted_game" where
  "formatGame g =
     \<lparr>f_id = game_id g,
      f_user = (case userId g of
                  Some r \<Rightarrow> Some \<lparr>ref_id = ref_id r, ref_firstName = ref_firstName r,
                                  ref_lastName = ref_lastName r\<rparr>
                | None \<Rightarrow> None),
      f_number = number g, f_result = result g, f_pointsChange = pointsChange g,
      newBalance = balanceAfter g, f_createdAt = game_createdAt g\<rparr>"

text \<open>\<^verbatim>\<open>parseInt(req.query.page as string) || 1\<close> and \<^verbatim>\<open>parseInt(req.query.limit as string) || 10\<close>.\<close>

definition parsePage :: "games_query \<Rightarrow> int" where
  "parsePage q = orDefault (parseInt (toString (query_page q))) 1"

definition parseLimit :: "games_query \<Rightarrow> int" where
  "parseLimit q = orDefault (parseInt (toString (query_limit q))) 10"

definition getAllGames :: "games_query \<Rightarrow> store \<Rightarrow> response \<times> store" where
  "getAllGames q s =
     (let pg = parsePage q;
          lmt = parseLimit q;
          skip = (pg - 1) * lmt;
          (found, s1) = Game_find skip lmt s;
          (totalGames, s2) = Game_countDocuments s1
      in case found of
           Inl err \<Rightarrow> (respond 500 (ApiResponse 500 GamesFailed None), s2)
         | Inr gs \<Rightarrow>
             (respond 200 (ApiResponse 200 GamesFetched
                (Some (PGames (map formatGame gs)
                   \<lparr>total = totalGames, page = pg,
                    pages = Math_ceil_div totalGames lmt, limit = lmt\<rparr>))), s2))"

definition getAllUsers :: "store \<Rightarrow> response \<times> store" where
  "getAllUsers s =
     (let (us, s1) = User_find s
      in (respond 200 (ApiResponse 200 UsersFetched (Some (PUsers us))), s1))"

text \<open>The body of a creation request: each property is a string or absent.\<close>

record create_body =
  body_firstName :: "string option"
  body_lastName :: "string option"
  body_email :: "string option"
  body_phone :: "string option"
  body_password :: "string option"
  body_role :: "string option"

definition createUser :: "bcrypt \<Rightarrow> env \<Rightarrow> create_body \<Rightarrow> store \<Rightarrow> response \<times> store" where
  "createUser bc e b s =
     (if falsy (body_firstName b) \<or> falsy (body_lastName b) \<or> falsy (body_email b) \<or>
         falsy (body_phone b) \<or> falsy (body_password b)
      then (respond 400 (ApiResponse 400 FieldsRequired None), s)
      else
        let (existingUser, s1) = User_findOne (the (body_email b)) s in
        if existingUser \<noteq> None
        then (respond 400 (ApiResponse 400 EmailExists None), s1)
        else
          let u = new_User e (the (body_firstName b)) (the (body_lastName b))
                    (the (body_email b)) (the (body_phone b)) (the (body_password b))
                    (orElse (body_role b) ''user'') 0
          in case save bc (salt e) u s1 of
               (Inl err, s2) \<Rightarrow> (respond 500 (ApiResponse 500 CreateFailed None), s2)
             | (Inr saved, s2) \<Rightarrow>
                 (let userData = deleteProperty ''password'' (toObject (doc saved))
                  in (respond 201 (ApiResponse 201 UserCreated (Some (PUser userData))), s2)))"

text \<open>
  \<^verbatim>\<open>updateData.password\<close> as a condition: an absent property, \<^verbatim>\<open>false\<close>, 0 and the
  empty string are falsy, every other value is truthy.
\<close>

definition truthy :: "body_value option \<Rightarrow> bool" where
  "truthy v =
     (case v of
        None \<Rightarrow> False
      | Some (Scalar (JBool b)) \<Rightarrow> b
      | Some (Scalar (JNum n)) \<Rightarrow> n \<noteq> 0
      | Some (Scalar (JStr s)) \<Rightarrow> s \<noteq> []
      | Some (Object kvs) \<Rightarrow> True)"

text \<open>\<^verbatim>\<open>if (updateData.password) { delete updateData.password; }\<close>\<close>

definition dropPassword :: "update_body \<Rightarrow> update_body" where
  "dropPassword b =
     (if truthy (map_of b ''password'') then filter (\<lambda>kv. fst kv \<noteq> ''password'') b else b)"

definition updateUser :: "mongoose \<Rightarrow> string \<Rightarrow> update_body \<Rightarrow> store \<Rightarrow> response \<times> store" where
  "updateUser mg i b s =
     (let updateData = dropPassword b
      in case User_findByIdAndUpdate mg i updateData s of
           (Inl err, s1) \<Rightarrow> (respond 500 (ApiResponse 500 UpdateFailed None), s1)
         | (Inr None, s1) \<Rightarrow> (respond 404 (ApiResponse 404 UserNotFound None), s1)
         | (Inr (Some u), s1) \<Rightarrow>
             (respond 200 (ApiResponse 200 UserUpdated (Some (PUser u))), s1))"

text \<open>
  \<^verbatim>\<open>AuthRequest\<close>: the route parameter and the identity the auth middleware may attach;
  \<open>auth_id\<close> is \<^verbatim>\<open>req.user._id.toString()\<close>.
\<close>

record auth_user =
  auth_id :: string
  auth_role :: string

record auth_request =
  params_id :: string
  req_user :: "auth_user option"

definition deleteUser :: "auth_request \<Rightarrow> store \<Rightarrow> response \<times> store" where
  "deleteUser req s =
     (let i = params_id req in
      if (case req_user req of None \<Rightarrow> False | Some a \<Rightarrow> auth_id a = i)
      then (respond 400 (ApiResponse 400 OwnAccount None), s)
      else
        case User_findByIdAndDelete i s of
          (Inl err, s1) \<Rightarrow> (respond 500 (ApiResponse 500 DeleteFailed None), s1)
        | (Inr None, s1) \<Rightarrow> (respond 404 (ApiResponse 404 UserNotFound None), s1)
        | (Inr (Some u), s1) \<Rightarrow> (respond 200 (ApiResponse 200 UserDeleted None), s1))"

section \<open>Notions used in the statements\<close>

text \<open>The guard of \<open>createUser\<close>: one of the five required properties is falsy.\<close>

definition requiredMissing :: "create_body \<Rightarrow> bool" where
  "requiredMissing b =
     (falsy (body_firstName b) \<or> falsy (body_lastName b) \<or> falsy (body_email b) \<or>
      falsy (body_phone b) \<or> falsy (body_password b))"

text \<open>The document \<open>createUser\<close> constructs, and the record its save stores.\<close>

definition newUserOf :: "env \<Rightarrow> create_body \<Rightarrow> user_doc" where
  "newUserOf e b =
     new_User e (the (body_firstName b)) (the (body_lastName b)) (the (body_email b))
       (the (body_phone b)) (the (body_password b)) (orElse (body_role b) ''user'') 0"

definition createdUser :: "bcrypt \<Rightarrow> env \<Rightarrow> create_body \<Rightarrow> user" where
  "createdUser bc e b = doc (pre_save bc (salt e) (newUserOf e b))"

text \<open>The roles a creation request may carry: none, or one the schema's enum lists.\<close>

definition roleAccepted :: "create_body \<Rightarrow> bool" where
  "roleAccepted b =
     (body_role b = None \<or> body_role b = Some [] \<or> body_role b = Some ''user'' \<or>
      body_role b = Some ''admin'')"

text \<open>The user objects a response carries, and whether one of them has a password.\<close>

definition responseObjects :: "response \<Rightarrow> json_obj list" where
  "responseObjects r =
     (case data (json r) of
        Some (PUsers objs) \<Rightarrow> objs
      | Some (PUser obj) \<Rightarrow> [obj]
      | Some (PGames gs pgn) \<Rightarrow> []
      | None \<Rightarrow> [])"

definition carriesPassword :: "response \<Rightarrow> bool" where
  "carriesPassword r = (\<exists>obj \<in> set (responseObjects r). hasProperty obj ''password'')"

text \<open>The identifier of each stored user with its creation time, and with its password.\<close>

definition creationTimes :: "store \<Rightarrow> (string \<times> int) list" where
  "creationTimes s = map (\<lambda>u. (user_id u, createdAt u)) (users s)"

definition storedPasswords :: "store \<Rightarrow> (string \<times> string) list" where
  "storedPasswords s = map (\<lambda>u. (user_id u, password u)) (users s)"


text \<open>
  The body names a path when it has it as a property or as a property of its \<^verbatim>\<open>$set\<close>
  object; it is plain when it hands nothing over: no update operator other than
  \<^verbatim>\<open>$set\<close>, and no schema path given an object.
\<close>

definition namesPath :: "update_body \<Rightarrow> string \<Rightarrow> bool" where
  "namesPath b p = (map_of b p \<noteq> None \<or> map_of (setArgument b) p \<noteq> None)"

definition plainBody :: "update_body \<Rightarrow> bool" where
  "plainBody b = (handedOver b = [])"


section \<open>Example data\<close>

text \<open>
  A stand-in for the bcrypt parameter, used to instantiate the theorems that assume
  bcrypt's contract. It is no hash function: it only has the shape the contract asks
  for (\<open>compare\<close> accepts exactly the candidates that \<open>hash\<close> maps to the stored
  string, and a hash differs from its plaintext).
\<close>

definition marker_bcrypt :: bcrypt where
  "marker_bcrypt =
     \<lparr>bcrypt_hash = (\<lambda>p r s. CHR ''$'' # p), bcrypt_compare = (\<lambda>c h. h = CHR ''$'' # c)\<rparr>"

definition alice :: user where
  "alice =
     \<lparr>user_id = ''64b0000000000000000000a1'', firstName = ''Alice'', lastName = ''Martin'',
      email = ''alice@example.org'', phone = ''0601'',
      password = ''$2a$12$abcdefghijklmnopqrstuuABCDEFGHIJKLMNOPQRSTUVWXYZ01234'',
      role = ''admin'', points = 0, bio = None, createdAt = 1000\<rparr>"

definition bob :: user where
  "bob =
     \<lparr>user_id = ''64b0000000000000000000b2'', firstName = ''Bob'', lastName = ''Durand'',
      email = ''bob@example.org'', phone = ''0602'',
      password = ''$2a$12$zyxwvutsrqponmlkjihgfe43210ZYXWVUTSRQPONMLKJIHGFEDCBA'',
      role = ''user'', points = 40, bio = Some ''player'', createdAt = 2000\<rparr>"

definition game1 :: "string game" where
  "game1 = \<lparr>game_id = ''g1'', userId = Some ''64b0000000000000000000b2'', number = 17, result = ''perdu'',
            pointsChange = - 35, balanceAfter = 5, game_createdAt = 3000\<rparr>"

definition game2 :: "string game" where
  "game2 = \<lparr>game_id = ''g2'', userId = Some ''64b0000000000000000000dd'', number = 88, result = ''gagne'',
            pointsChange = 50, balanceAfter = 50, game_createdAt = 5000\<rparr>"

definition game3 :: "string game" where
  "game3 = \<lparr>game_id = ''g3'', userId = None, number = 70, result = ''gagne'',
            pointsChange = 50, balanceAfter = 90, game_createdAt = 4000\<rparr>"

definition emptyStore :: store where
  "emptyStore = \<lparr>users = [], games = [], calls = []\<rparr>"

definition demoStore :: store where
  "demoStore = \<lparr>users = [alice, bob], games = [game1, game2, game3], calls = []\<rparr>"

definition env1 :: env where
  "env1 = \<lparr>new_oid = ''64b0000000000000000000c3'', now = 9000, salt = ''NaCl''\<rparr>"

definition carolBody :: create_body where
  "carolBody =
     \<lparr>body_firstName = Some ''Carol'', body_lastName = Some ''Petit'',
      body_email = Some ''carol@example.org'', body_phone = Some ''0603'',
      body_password = Some ''s3cret'', body_role = None\<rparr>"

definition rootBody :: create_body where
  "rootBody = carolBody\<lparr>body_role := Some ''superadmin''\<rparr>"

definition bobLoaded :: user_doc where
  "bobLoaded = \<lparr>doc = bob\<lparr>bio := Some ''champion''\<rparr>, isNew = False, modifiedPaths = [''bio'']\<rparr>"

text \<open>
  A stand-in for the Mongoose parameter: it casts no string and refuses whatever the
  model hands over.
\<close>

definition strictMongoose :: mongoose where
  "strictMongoose =
     \<lparr>numberOfString = (\<lambda>s. None), dateOfString = (\<lambda>s. None),
      otherUpdates = (\<lambda>b u. Inl BadValue)\<rparr>"

definition renameBody :: update_body where
  "renameBody = [(''firstName'', Scalar (JStr ''Robert''))]"

definition backdateBody :: update_body where
  "backdateBody = [(''createdAt'', Scalar (JNum 0))]"

definition setBackdateBody :: update_body where
  "setBackdateBody = [(''$set'', Object [(''createdAt'', JNum 0)])]"

definition emptyPasswordBody :: update_body where
  "emptyPasswordBody = [(''password'', Scalar (JStr []))]"

definition newPasswordBody :: update_body where
  "newPasswordBody =
     [(''firstName'', Scalar (JStr ''Robert'')), (''password'', Scalar (JStr ''hunter2''))]"

text \<open>The ObjectId of \<open>alice\<close> written in upper case, and a request of hers that names it.\<close>

definition aliceUpper :: string where
  "aliceUpper = ''64B0000000000000000000A1''"

definition aliceDeletesUpper :: auth_request where
  "aliceDeletesUpper =
     \<lparr>params_id = aliceUpper,
      req_user = Some \<lparr>auth_id = ''64b0000000000000000000a1'', auth_role = ''admin''\<rparr>\<rparr>"

lemmas example_defs =
  alice_def bob_def game1_def game2_def game3_def emptyStore_def demoStore_def
  env1_def carolBody_def rootBody_def bobLoaded_def
  strictMongoose_def renameBody_def backdateBody_def setBackdateBody_def
  emptyPasswordBody_def newPasswordBody_def aliceUpper_def aliceDeletesUpper_def

section \<open>Deleting a user\<close>

lemma deleteUser_own:
  "req_user req = Some a \<Longrightarrow> auth_id a = params_id req \<Longrightarrow>
   deleteUser req s = (respond 400 (ApiResponse 400 OwnAccount None), s)"
  by (simp add: deleteUser_def Let_def)

lemma deleteUser_other:
  "(case req_user req of None \<Rightarrow> True | Some a \<Rightarrow> auth_id a \<noteq> params_id req) \<Longrightarrow>
   deleteUser req s =
     (case castObjectId (params_id req) of
        None \<Rightarrow>
          (respond 500 (ApiResponse 500 DeleteFailed None),
           logCall (UserFindByIdAndDelete (params_id req)) s)
      | Some oid \<Rightarrow>
          (if findById (users s) oid = None
           then respond 404 (ApiResponse 404 UserNotFound None)
           else respond 200 (ApiResponse 200 UserDeleted None),
           (logCall (UserFindByIdAndDelete (params_id req)) s)
             \<lparr>users := removeById oid (users s)\<rparr>))"
  by (auto simp: deleteUser_def User_findByIdAndDelete_def Let_def split: option.splits)

text \<open>
  A request whose route parameter is, as a string, the acting user's id is refused
  with 400, and the store is returned as it was: no call is logged.
\<close>

lemma deleteUser_same_string_is_refused:
  assumes "req_user req = Some a" and "auth_id a = params_id req"
  shows "status (fst (deleteUser req s)) = 400 \<and> snd (deleteUser req s) = s"
  using assms by (simp add: deleteUser_own respond_def)

text \<open>
  C3 fails on the code when the route names the acting user's id in another letter
  case. The guard compares the two strings and finds them different; Mongoose then
  casts the route parameter to the ObjectId of the acting user, whose account is
  deleted with the answer 200. The handler's comment says an admin must not be able
  to delete their own account.
\<close>

theorem deleteUser_own_account_in_upper_case:
  "users demoStore = [alice, bob] \<and>
   req_user aliceDeletesUpper = Some \<lparr>auth_id = user_id alice, auth_role = ''admin''\<rparr> \<and>
   castObjectId (params_id aliceDeletesUpper) = Some (user_id alice) \<and>
   fst (deleteUser aliceDeletesUpper demoStore) = respond 200 (ApiResponse 200 UserDeleted None) \<and>
   users (snd (deleteUser aliceDeletesUpper demoStore)) = [bob] \<and>
   calls (snd (deleteUser aliceDeletesUpper demoStore)) = [UserFindByIdAndDelete aliceUpper]"
  by code_simp

text \<open>
  C10. \<open>deleteUser\<close> gives its own-account answer exactly when the request carries an
  acting user whose id string equals the target id. When the request carries no
  acting user the guard is skipped for every target id and the store's delete is
  called with that id: an id that casts to an ObjectId has its user removed, with the
  answer 200, or 404 when there is none; an id that does not cast changes nothing and
  the answer is 500.
\<close>

theorem deleteUser_guard:
  "(fst (deleteUser req s) = respond 400 (ApiResponse 400 OwnAccount None)
      \<longleftrightarrow> (\<exists>a. req_user req = Some a \<and> auth_id a = params_id req)) \<and>
   (req_user req = None \<longrightarrow>
      calls (snd (deleteUser req s)) = calls s @ [UserFindByIdAndDelete (params_id req)] \<and>
      (\<forall>oid. castObjectId (params_id req) = Some oid \<longrightarrow>
         users (snd (deleteUser req s)) = removeById oid (users s) \<and>
         status (fst (deleteUser req s)) = (if findById (users s) oid = None then 404 else 200)) \<and>
      (castObjectId (params_id req) = None \<longrightarrow>
         users (snd (deleteUser req s)) = users s \<and>
         status (fst (deleteUser req s)) = 500))"
proof (cases "\<exists>a. req_user req = Some a \<and> auth_id a = params_id req")
  case True
  then show ?thesis by (auto simp: deleteUser_own)
next
  case False
  then have other: "case req_user req of None \<Rightarrow> True | Some a \<Rightarrow> auth_id a \<noteq> params_id req"
    by (simp split: option.splits)
  show ?thesis
    using False
    by (auto simp: deleteUser_other [OF other] respond_def logCall_def ApiResponse_def
        split: option.splits)
qed

theorem deleteUser_guard_witness:
  "req_user \<lparr>params_id = ''64b0000000000000000000a1'', req_user = None\<rparr> = None \<and>
   castObjectId ''64b0000000000000000000a1'' = Some ''64b0000000000000000000a1'' \<and>
   calls (snd (deleteUser \<lparr>params_id = ''64b0000000000000000000a1'', req_user = None\<rparr> demoStore))
     = [UserFindByIdAndDelete ''64b0000000000000000000a1''] \<and>
   users (snd (deleteUser \<lparr>params_id = ''64b0000000000000000000a1'', req_user = None\<rparr> demoStore))
     = [bob] \<and>
   status (fst (deleteUser \<lparr>params_id = ''64b0000000000000000000a1'', req_user = None\<rparr> demoStore))
     = 200 \<and>
   castObjectId ''64b0000000000000000000dd'' = Some ''64b0000000000000000000dd'' \<and>
   users (snd (deleteUser \<lparr>params_id = ''64b0000000000000000000dd'', req_user = None\<rparr> demoStore))
     = [alice, bob] \<and>
   status (fst (deleteUser \<lparr>params_id = ''64b0000000000000000000dd'', req_user = None\<rparr> demoStore))
     = 404 \<and>
   castObjectId ''nope'' = None \<and>
   calls (snd (deleteUser \<lparr>params_id = ''nope'', req_user = None\<rparr> demoStore))
     = [UserFindByIdAndDelete ''nope''] \<and>
   users (snd (deleteUser \<lparr>params_id = ''nope'', req_user = None\<rparr> demoStore)) = [alice, bob] \<and>
   status (fst (deleteUser \<lparr>params_id = ''nope'', req_user = None\<rparr> demoStore)) = 500 \<and>
   fst (deleteUser \<lparr>params_id = ''64b0000000000000000000a1'',
      req_user = Some \<lparr>auth_id = ''64b0000000000000000000a1'', auth_role = ''admin''\<rparr>\<rparr> demoStore)
     = respond 400 (ApiResponse 400 OwnAccount None) \<and>
   fst (deleteUser \<lparr>params_id = ''64b0000000000000000000a1'',
      req_user = Some \<lparr>auth_id = ''64b0000000000000000000b2'', auth_role = ''admin''\<rparr>\<rparr> demoStore)
     = respond 200 (ApiResponse 200 UserDeleted None)"
proof -
  have c1: "castObjectId ''64b0000000000000000000a1'' = Some ''64b0000000000000000000a1''"
    and c2: "castObjectId ''64b0000000000000000000dd'' = Some ''64b0000000000000000000dd''"
    and c3: "castObjectId ''nope'' = None"
    by code_simp+
  have f1: "findById (users demoStore) ''64b0000000000000000000a1'' = Some alice"
    and f2: "findById (users demoStore) ''64b0000000000000000000dd'' = None"
    and u: "users demoStore = [alice, bob]" and l: "calls demoStore = []"
    and r1: "removeById ''64b0000000000000000000a1'' [alice, bob] = [bob]"
    and r2: "removeById ''64b0000000000000000000dd'' [alice, bob] = [alice, bob]"
    by (simp_all add: example_defs findById_def)
  have other: "fst (deleteUser \<lparr>params_id = ''64b0000000000000000000a1'',
      req_user = Some \<lparr>auth_id = ''64b0000000000000000000b2'', auth_role = ''admin''\<rparr>\<rparr> demoStore)
     = respond 200 (ApiResponse 200 UserDeleted None)"
    by code_simp
  from deleteUser_guard [of "\<lparr>params_id = ''64b0000000000000000000a1'', req_user = None\<rparr>" demoStore]
    deleteUser_guard [of "\<lparr>params_id = ''64b0000000000000000000dd'', req_user = None\<rparr>" demoStore]
    deleteUser_guard [of "\<lparr>params_id = ''nope'', req_user = None\<rparr>" demoStore]
    deleteUser_guard [of "\<lparr>params_id = ''64b0000000000000000000a1'',
      req_user = Some \<lparr>auth_id = ''64b0000000000000000000a1'', auth_role = ''admin''\<rparr>\<rparr>" demoStore]
    other c1 c2 c3 f1 f2 u l r1 r2
  show ?thesis by simp
qed

section \<open>Listing the games\<close>

lemma getAllGames_ok:
  assumes "0 \<le> (parsePage q - 1) * parseLimit q"
  shows "getAllGames q s =
     (respond 200 (ApiResponse 200 GamesFetched
        (Some (PGames
           (map formatGame (map (populate (users s))
              (selectGames ((parsePage q - 1) * parseLimit q) (parseLimit q) (games s))))
           \<lparr>total = int (length (games s)), page = parsePage q,
            pages = Math_ceil_div (int (length (games s))) (parseLimit q),
            limit = parseLimit q\<rparr>))),
      logCall GameCountDocuments
        (logCall (GameFind ((parsePage q - 1) * parseLimit q) (parseLimit q)) s))"
  using assms
  by (simp add: getAllGames_def Game_find_def Game_countDocuments_def Let_def logCall_def)

lemma getAllGames_negative_skip:
  assumes "(parsePage q - 1) * parseLimit q < 0"
  shows "getAllGames q s =
     (respond 500 (ApiResponse 500 GamesFailed None),
      logCall GameCountDocuments
        (logCall (GameFind ((parsePage q - 1) * parseLimit q) (parseLimit q)) s))"
  using assms
  by (simp add: getAllGames_def Game_find_def Game_countDocuments_def Let_def logCall_def)






lemma orDefault_parse:
  "parseInt str = None \<or> parseInt str = Some 0 \<Longrightarrow> orDefault (parseInt str) d = d"
  by (auto simp: orDefault_def)

lemma formatGame_populate_user:
  "f_user (formatGame (populate us g)) =
     (case userId g of
        None \<Rightarrow> None
      | Some r \<Rightarrow> (case findById us r of None \<Rightarrow> None | Some u \<Rightarrow> Some (selectNames u)))"
  by (simp add: formatGame_def populate_def selectNames_def split: option.splits)

lemma formatGame_populate_fields:
  "f_id (formatGame (populate us g)) = game_id g \<and>
   f_number (formatGame (populate us g)) = number g \<and>
   f_result (formatGame (populate us g)) = result g \<and>
   f_pointsChange (formatGame (populate us g)) = pointsChange g \<and>
   newBalance (formatGame (populate us g)) = balanceAfter g \<and>
   f_createdAt (formatGame (populate us g)) = game_createdAt g"
  by (simp add: formatGame_def populate_def)

lemma getAllGames_status:
  "status (fst (getAllGames q s)) = 200 \<longleftrightarrow> 0 \<le> (parsePage q - 1) * parseLimit q"
proof (cases "0 \<le> (parsePage q - 1) * parseLimit q")
  case True
  then show ?thesis by (simp add: getAllGames_ok respond_def)
next
  case False
  then have "(parsePage q - 1) * parseLimit q < 0" by simp
  from getAllGames_negative_skip [OF this] False show ?thesis by (simp add: respond_def)
qed


lemma parse_absent:
  "parsePage \<lparr>query_page = None, query_limit = None\<rparr> = 1"
  "parseLimit \<lparr>query_page = None, query_limit = None\<rparr> = 10"
  by code_simp+





text \<open>
  C7. Whether \<open>getAllGames\<close> succeeds is decided by the paging parameters alone, never
  by the owners of the games. When it succeeds, item \<open>k\<close> of the answer is made from
  game \<open>k\<close> of the selected page: its \<open>user\<close> is null when the game's owner reference
  is null or names no stored user, and is the \<open>_id\<close>, \<open>firstName\<close> and \<open>lastName\<close> of
  the user it names otherwise; every other field is the game's own.
\<close>

theorem getAllGames_owner_resolution:
  "(status (fst (getAllGames q s)) = 200 \<longleftrightarrow> 0 \<le> (parsePage q - 1) * parseLimit q) \<and>
   (0 \<le> (parsePage q - 1) * parseLimit q \<longrightarrow>
     (\<exists>items pgn.
        data (json (fst (getAllGames q s))) = Some (PGames items pgn) \<and>
        length items =
          length (selectGames ((parsePage q - 1) * parseLimit q) (parseLimit q) (games s)) \<and>
        (\<forall>k < length items.
           let g = selectGames ((parsePage q - 1) * parseLimit q) (parseLimit q) (games s) ! k in
           f_id (items ! k) = game_id g \<and>
           (userId g = None \<longrightarrow> f_user (items ! k) = None) \<and>
           (\<forall>r. userId g = Some r \<and> findById (users s) r = None \<longrightarrow> f_user (items ! k) = None) \<and>
           (\<forall>r u. userId g = Some r \<and> findById (users s) r = Some u \<longrightarrow>
              f_user (items ! k) =
                Some \<lparr>ref_id = user_id u, ref_firstName = firstName u, ref_lastName = lastName u\<rparr>) \<and>
           f_number (items ! k) = number g \<and> f_result (items ! k) = result g \<and>
           f_pointsChange (items ! k) = pointsChange g \<and>
           newBalance (items ! k) = balanceAfter g \<and>
           f_createdAt (items ! k) = game_createdAt g)))"
proof (intro conjI impI)
  show "status (fst (getAllGames q s)) = 200 \<longleftrightarrow> 0 \<le> (parsePage q - 1) * parseLimit q"
    by (rule getAllGames_status)
next
  assume ok: "0 \<le> (parsePage q - 1) * parseLimit q"
  define sel where "sel = selectGames ((parsePage q - 1) * parseLimit q) (parseLimit q) (games s)"
  define items where "items = map formatGame (map (populate (users s)) sel)"
  have d: "data (json (fst (getAllGames q s))) = Some (PGames items
      \<lparr>total = int (length (games s)), page = parsePage q,
       pages = Math_ceil_div (int (length (games s))) (parseLimit q), limit = parseLimit q\<rparr>)"
    by (simp add: getAllGames_ok [OF ok] respond_def ApiResponse_def items_def sel_def)
  have len: "length items = length sel" by (simp add: items_def)
  have each: "\<forall>k < length items.
           let g = sel ! k in
           f_id (items ! k) = game_id g \<and>
           (userId g = None \<longrightarrow> f_user (items ! k) = None) \<and>
           (\<forall>r. userId g = Some r \<and> findById (users s) r = None \<longrightarrow> f_user (items ! k) = None) \<and>
           (\<forall>r u. userId g = Some r \<and> findById (users s) r = Some u \<longrightarrow>
              f_user (items ! k) =
                Some \<lparr>ref_id = user_id u, ref_firstName = firstName u, ref_lastName = lastName u\<rparr>) \<and>
           f_number (items ! k) = number g \<and> f_result (items ! k) = result g \<and>
           f_pointsChange (items ! k) = pointsChange g \<and>
           newBalance (items ! k) = balanceAfter g \<and>
           f_createdAt (items ! k) = game_createdAt g"
  proof (intro allI impI)
    fix k assume k: "k < length items"
    then have ik: "items ! k = formatGame (populate (users s) (sel ! k))"
      by (simp add: items_def)
    show "let g = sel ! k in
           f_id (items ! k) = game_id g \<and>
           (userId g = None \<longrightarrow> f_user (items ! k) = None) \<and>
           (\<forall>r. userId g = Some r \<and> findById (users s) r = None \<longrightarrow> f_user (items ! k) = None) \<and>
           (\<forall>r u. userId g = Some r \<and> findById (users s) r = Some u \<longrightarrow>
              f_user (items ! k) =
                Some \<lparr>ref_id = user_id u, ref_firstName = firstName u, ref_lastName = lastName u\<rparr>) \<and>
           f_number (items ! k) = number g \<and> f_result (items ! k) = result g \<and>
           f_pointsChange (items ! k) = pointsChange g \<and>
           newBalance (items ! k) = balanceAfter g \<and>
           f_createdAt (items ! k) = game_createdAt g"
      unfolding ik Let_def
      by (simp add: formatGame_populate_user formatGame_populate_fields selectNames_def)
  qed
  from d len each show "\<exists>items pgn.
        data (json (fst (getAllGames q s))) = Some (PGames items pgn) \<and>
        length items =
          length (selectGames ((parsePage q - 1) * parseLimit q) (parseLimit q) (games s)) \<and>
        (\<forall>k < length items.
           let g = selectGames ((parsePage q - 1) * parseLimit q) (parseLimit q) (games s) ! k in
           f_id (items ! k) = game_id g \<and>
           (userId g = None \<longrightarrow> f_user (items ! k) = None) \<and>
           (\<forall>r. userId g = Some r \<and> findById (users s) r = None \<longrightarrow> f_user (items ! k) = None) \<and>
           (\<forall>r u. userId g = Some r \<and> findById (users s) r = Some u \<longrightarrow>
              f_user (items ! k) =
                Some \<lparr>ref_id = user_id u, ref_firstName = firstName u, ref_lastName = lastName u\<rparr>) \<and>
           f_number (items ! k) = number g \<and> f_result (items ! k) = result g \<and>
           f_pointsChange (items ! k) = pointsChange g \<and>
           newBalance (items ! k) = balanceAfter g \<and>
           f_createdAt (items ! k) = game_createdAt g)"
    unfolding sel_def [symmetric] by blast
qed

theorem getAllGames_owner_resolution_witness:
  "0 \<le> (parsePage \<lparr>query_page = None, query_limit = None\<rparr> - 1)
         * parseLimit \<lparr>query_page = None, query_limit = None\<rparr> \<and>
   status (fst (getAllGames \<lparr>query_page = None, query_limit = None\<rparr> demoStore)) = 200 \<and>
   data (json (fst (getAllGames \<lparr>query_page = None, query_limit = None\<rparr> demoStore))) =
     Some (PGames
       [\<lparr>f_id = ''g2'', f_user = None, f_number = 88, f_result = ''gagne'',
         f_pointsChange = 50, newBalance = 50, f_createdAt = 5000\<rparr>,
        \<lparr>f_id = ''g3'', f_user = None, f_number = 70, f_result = ''gagne'',
         f_pointsChange = 50, newBalance = 90, f_createdAt = 4000\<rparr>,
        \<lparr>f_id = ''g1'',
         f_user = Some \<lparr>ref_id = ''64b0000000000000000000b2'', ref_firstName = ''Bob'', ref_lastName = ''Durand''\<rparr>,
         f_number = 17, f_result = ''perdu'', f_pointsChange = - 35, newBalance = 5,
         f_createdAt = 3000\<rparr>]
       \<lparr>total = 3, page = 1, pages = 1, limit = 10\<rparr>)"
proof -
  have ok: "0 \<le> (parsePage \<lparr>query_page = None, query_limit = None\<rparr> - 1)
         * parseLimit \<lparr>query_page = None, query_limit = None\<rparr>"
    by (simp add: parse_absent)
  have st: "status (fst (getAllGames \<lparr>query_page = None, query_limit = None\<rparr> demoStore)) = 200"
    using getAllGames_owner_resolution [of "\<lparr>query_page = None, query_limit = None\<rparr>" demoStore] ok
    by blast
  show ?thesis
    using ok st
    by (simp add: getAllGames_ok [OF ok] parse_absent respond_def ApiResponse_def example_defs
        selectGames_def sortByCreatedAtDesc_def applyLimit_def formatGame_def populate_def
        findById_def selectNames_def Math_ceil_div_def)
qed

section \<open>Creating a user\<close>

lemma falsy_iff: "falsy v \<longleftrightarrow> v = None \<or> v = Some []"
  by (simp add: falsy_def split: option.splits)

lemma pre_save_keeps:
  "user_id (doc (pre_save bc slt d)) = user_id (doc d)"
  "email (doc (pre_save bc slt d)) = email (doc d)"
  "createdAt (doc (pre_save bc slt d)) = createdAt (doc d)"
  "isNew (pre_save bc slt d) = isNew d"
  "modifiedPaths (pre_save bc slt d) = modifiedPaths d"
  by (simp_all add: pre_save_def)

lemma save_invalid:
  "\<not> validates (doc d) \<Longrightarrow>
   save bc slt d s = (Inl ValidationError, logCall (UserSave (user_id (doc d))) s)"
  by (simp add: save_def Let_def)

lemma save_new:
  assumes "isNew d" and "validates (doc d)"
  shows "save bc slt d s =
     (if \<exists>x \<in> set (users s). user_id x = user_id (doc d) \<or> email x = email (doc d)
      then (Inl DuplicateKey, logCall (UserSave (user_id (doc d))) s)
      else (Inr ((pre_save bc slt d)\<lparr>isNew := False, modifiedPaths := []\<rparr>),
            (logCall (UserSave (user_id (doc d))) s)\<lparr>users := users s @ [doc (pre_save bc slt d)]\<rparr>))"
  using assms by (simp add: save_def Let_def pre_save_keeps logCall_def)

lemma createUser_missing:
  "requiredMissing b \<Longrightarrow>
   createUser bc e b s = (respond 400 (ApiResponse 400 FieldsRequired None), s)"
  by (simp add: createUser_def requiredMissing_def)

lemma createUser_conflict:
  "\<not> requiredMissing b \<Longrightarrow> find (\<lambda>u. email u = the (body_email b)) (users s) \<noteq> None \<Longrightarrow>
   createUser bc e b s =
     (respond 400 (ApiResponse 400 EmailExists None), logCall (UserFindOne (the (body_email b))) s)"
  by (simp add: createUser_def requiredMissing_def User_findOne_def)

lemma createUser_saves:
  "\<not> requiredMissing b \<Longrightarrow> find (\<lambda>u. email u = the (body_email b)) (users s) = None \<Longrightarrow>
   createUser bc e b s =
     (case save bc (salt e) (newUserOf e b) (logCall (UserFindOne (the (body_email b))) s) of
        (Inl err, s2) \<Rightarrow> (respond 500 (ApiResponse 500 CreateFailed None), s2)
      | (Inr saved, s2) \<Rightarrow>
          (respond 201 (ApiResponse 201 UserCreated
             (Some (PUser (deleteProperty ''password'' (toObject (doc saved)))))), s2))"
  by (simp add: createUser_def requiredMissing_def User_findOne_def newUserOf_def Let_def
      split: prod.splits sum.splits)

lemma newUserOf_simps:
  "isNew (newUserOf e b)"
  "user_id (doc (newUserOf e b)) = new_oid e"
  "email (doc (newUserOf e b)) = the (body_email b)"
  "isModified (newUserOf e b) ''password''"
  by (simp_all add: newUserOf_def new_User_def isModified_def)

lemma newUserOf_validates:
  "\<not> requiredMissing b \<Longrightarrow>
   validates (doc (newUserOf e b)) \<longleftrightarrow>
     (body_role b = None \<or> body_role b = Some [] \<or> body_role b = Some ''user'' \<or> body_role b = Some ''admin'')"
  by (auto simp: requiredMissing_def falsy_iff newUserOf_def new_User_def validates_def orElse_def
      split: option.splits)

lemma createdUser_fields:
  "createdUser bc e b =
     \<lparr>user_id = new_oid e, firstName = the (body_firstName b), lastName = the (body_lastName b),
      email = the (body_email b), phone = the (body_phone b),
      password = bcrypt_hash bc (the (body_password b)) 12 (salt e),
      role = orElse (body_role b) ''user'', points = 0, bio = None, createdAt = now e\<rparr>"
  by (simp add: createdUser_def pre_save_def newUserOf_def new_User_def isModified_def)

lemma createUser_bad_role:
  assumes "\<not> requiredMissing b" and "find (\<lambda>u. email u = the (body_email b)) (users s) = None"
    and "\<not> roleAccepted b"
  shows "createUser bc e b s =
     (respond 500 (ApiResponse 500 CreateFailed None),
      logCall (UserSave (new_oid e)) (logCall (UserFindOne (the (body_email b))) s))"
  using assms newUserOf_validates [of b e]
  by (simp add: createUser_saves save_invalid newUserOf_simps roleAccepted_def)

lemma createUser_dup_id:
  assumes "\<not> requiredMissing b" and "find (\<lambda>u. email u = the (body_email b)) (users s) = None"
    and "roleAccepted b" and "new_oid e \<in> user_id ` set (users s)"
  shows "createUser bc e b s =
     (respond 500 (ApiResponse 500 CreateFailed None),
      logCall (UserSave (new_oid e)) (logCall (UserFindOne (the (body_email b))) s))"
proof -
  have v: "validates (doc (newUserOf e b))"
    using assms newUserOf_validates [of b e] by (simp add: roleAccepted_def)
  have "\<exists>x \<in> set (users s). user_id x = new_oid e \<or> email x = the (body_email b)"
    using assms(4) by auto
  then show ?thesis
    using assms(1,2)
    by (simp add: createUser_saves save_new [OF newUserOf_simps(1) v] newUserOf_simps logCall_def)
qed

lemma createUser_created:
  assumes "\<not> requiredMissing b" and "find (\<lambda>u. email u = the (body_email b)) (users s) = None"
    and "roleAccepted b" and "new_oid e \<notin> user_id ` set (users s)"
  shows "createUser bc e b s =
     (respond 201 (ApiResponse 201 UserCreated
        (Some (PUser (deleteProperty ''password'' (toObject (createdUser bc e b)))))),
      (logCall (UserSave (new_oid e)) (logCall (UserFindOne (the (body_email b))) s))
        \<lparr>users := users s @ [createdUser bc e b]\<rparr>)"
proof -
  have v: "validates (doc (newUserOf e b))"
    using assms newUserOf_validates [of b e] by (simp add: roleAccepted_def)
  have "\<not> (\<exists>x \<in> set (users s). user_id x = new_oid e \<or> email x = the (body_email b))"
    using assms(2,4) by (force simp: find_None_iff)
  then show ?thesis
    using assms(1,2)
    by (simp add: createUser_saves save_new [OF newUserOf_simps(1) v] newUserOf_simps logCall_def
        createdUser_def)
qed

lemma requiredMissing_iff:
  "requiredMissing b \<longleftrightarrow>
     (\<exists>v \<in> {body_firstName b, body_lastName b, body_email b, body_phone b, body_password b}.
        v = None \<or> v = Some [])"
  by (auto simp: requiredMissing_def falsy_iff)

lemma find_email_iff:
  "\<not> requiredMissing b \<Longrightarrow>
   find (\<lambda>u. email u = the (body_email b)) (users s) \<noteq> None
     \<longleftrightarrow> (\<exists>u \<in> set (users s). body_email b = Some (email u))"
  by (auto simp: find_None_iff requiredMissing_def falsy_iff)

lemma createUser_status_400:
  "status (fst (createUser bc e b s)) = 400 \<longleftrightarrow>
     requiredMissing b \<or> find (\<lambda>u. email u = the (body_email b)) (users s) \<noteq> None"
proof (cases "requiredMissing b")
  case True
  then show ?thesis by (simp add: createUser_missing respond_def)
next
  case nm: False
  show ?thesis
  proof (cases "find (\<lambda>u. email u = the (body_email b)) (users s) = None")
    case False
    with nm show ?thesis by (simp add: createUser_conflict respond_def)
  next
    case True
    with nm show ?thesis
      by (simp add: createUser_saves respond_def split: prod.splits sum.splits)
  qed
qed

lemma createUser_400_keeps_users:
  "status (fst (createUser bc e b s)) = 400 \<Longrightarrow> users (snd (createUser bc e b s)) = users s"
  unfolding createUser_status_400
  by (cases "requiredMissing b") (auto simp: createUser_missing createUser_conflict logCall_def)

text \<open>
  C6, as the code has it. \<open>createUser\<close> answers 400 exactly when one of \<open>firstName\<close>,
  \<open>lastName\<close>, \<open>email\<close>, \<open>phone\<close>, \<open>password\<close> is missing or empty, or a stored user
  has the submitted email; it then stores no user. Otherwise, when the role is absent,
  empty, \<^verbatim>\<open>user\<close> or \<^verbatim>\<open>admin\<close> (and the generated ObjectId is new), it answers 201
  with the created record, password removed, and has stored that record with the
  hashed password, \<open>points = 0\<close> and the default role \<^verbatim>\<open>user\<close>. With any other role
  the schema's enum rejects the save: the answer is 500 and no user is stored.
\<close>

theorem createUser_outcomes:
  "(status (fst (createUser bc e b s)) = 400 \<longleftrightarrow>
      (\<exists>v \<in> {body_firstName b, body_lastName b, body_email b, body_phone b, body_password b}.
         v = None \<or> v = Some [])
      \<or> (\<exists>u \<in> set (users s). body_email b = Some (email u))) \<and>
   (status (fst (createUser bc e b s)) = 400 \<longrightarrow>
      users (snd (createUser bc e b s)) = users s) \<and>
   (status (fst (createUser bc e b s)) \<noteq> 400 \<and>
    body_role b \<in> {None, Some [], Some ''user'', Some ''admin''} \<and>
    new_oid e \<notin> user_id ` set (users s) \<longrightarrow>
      status (fst (createUser bc e b s)) = 201 \<and>
      data (json (fst (createUser bc e b s))) =
        Some (PUser (deleteProperty ''password'' (toObject (createdUser bc e b)))) \<and>
      users (snd (createUser bc e b s)) = users s @ [createdUser bc e b] \<and>
      createdUser bc e b =
        \<lparr>user_id = new_oid e, firstName = the (body_firstName b),
         lastName = the (body_lastName b), email = the (body_email b),
         phone = the (body_phone b),
         password = bcrypt_hash bc (the (body_password b)) 12 (salt e),
         role = orElse (body_role b) ''user'', points = 0, bio = None, createdAt = now e\<rparr>) \<and>
   (status (fst (createUser bc e b s)) \<noteq> 400 \<and>
    body_role b \<notin> {None, Some [], Some ''user'', Some ''admin''} \<longrightarrow>
      status (fst (createUser bc e b s)) = 500 \<and>
      users (snd (createUser bc e b s)) = users s)"
proof -
  have iff400: "status (fst (createUser bc e b s)) = 400 \<longleftrightarrow>
      (\<exists>v \<in> {body_firstName b, body_lastName b, body_email b, body_phone b, body_password b}.
         v = None \<or> v = Some [])
      \<or> (\<exists>u \<in> set (users s). body_email b = Some (email u))"
  proof (cases "requiredMissing b")
    case True
    with requiredMissing_iff [of b] createUser_status_400 [of bc e b s]
    show ?thesis by blast
  next
    case False
    from find_email_iff [OF False, of s] requiredMissing_iff [of b]
      createUser_status_400 [of bc e b s] False
    show ?thesis by blast
  qed
  have keep: "status (fst (createUser bc e b s)) = 400 \<longrightarrow>
      users (snd (createUser bc e b s)) = users s"
    by (simp add: createUser_400_keeps_users)
  have created: "status (fst (createUser bc e b s)) \<noteq> 400 \<and>
    body_role b \<in> {None, Some [], Some ''user'', Some ''admin''} \<and>
    new_oid e \<notin> user_id ` set (users s) \<longrightarrow>
      status (fst (createUser bc e b s)) = 201 \<and>
      data (json (fst (createUser bc e b s))) =
        Some (PUser (deleteProperty ''password'' (toObject (createdUser bc e b)))) \<and>
      users (snd (createUser bc e b s)) = users s @ [createdUser bc e b] \<and>
      createdUser bc e b =
        \<lparr>user_id = new_oid e, firstName = the (body_firstName b),
         lastName = the (body_lastName b), email = the (body_email b),
         phone = the (body_phone b),
         password = bcrypt_hash bc (the (body_password b)) 12 (salt e),
         role = orElse (body_role b) ''user'', points = 0, bio = None, createdAt = now e\<rparr>"
  proof
    assume a: "status (fst (createUser bc e b s)) \<noteq> 400 \<and>
      body_role b \<in> {None, Some [], Some ''user'', Some ''admin''} \<and>
      new_oid e \<notin> user_id ` set (users s)"
    then have nm: "\<not> requiredMissing b"
      and nf: "find (\<lambda>u. email u = the (body_email b)) (users s) = None"
      by (simp_all add: createUser_status_400)
    have ra: "roleAccepted b" using a by (simp add: roleAccepted_def)
    from a have fresh: "new_oid e \<notin> user_id ` set (users s)" by simp
    show "status (fst (createUser bc e b s)) = 201 \<and>
      data (json (fst (createUser bc e b s))) =
        Some (PUser (deleteProperty ''password'' (toObject (createdUser bc e b)))) \<and>
      users (snd (createUser bc e b s)) = users s @ [createdUser bc e b] \<and>
      createdUser bc e b =
        \<lparr>user_id = new_oid e, firstName = the (body_firstName b),
         lastName = the (body_lastName b), email = the (body_email b),
         phone = the (body_phone b),
         password = bcrypt_hash bc (the (body_password b)) 12 (salt e),
         role = orElse (body_role b) ''user'', points = 0, bio = None, createdAt = now e\<rparr>"
      by (simp add: createUser_created [OF nm nf ra fresh] respond_def ApiResponse_def
          createdUser_fields)
  qed
  have refused: "status (fst (createUser bc e b s)) \<noteq> 400 \<and>
    body_role b \<notin> {None, Some [], Some ''user'', Some ''admin''} \<longrightarrow>
      status (fst (createUser bc e b s)) = 500 \<and>
      users (snd (createUser bc e b s)) = users s"
  proof
    assume a: "status (fst (createUser bc e b s)) \<noteq> 400 \<and>
      body_role b \<notin> {None, Some [], Some ''user'', Some ''admin''}"
    then have nm: "\<not> requiredMissing b"
      and nf: "find (\<lambda>u. email u = the (body_email b)) (users s) = None"
      by (simp_all add: createUser_status_400)
    have ra: "\<not> roleAccepted b" using a by (simp add: roleAccepted_def)
    show "status (fst (createUser bc e b s)) = 500 \<and> users (snd (createUser bc e b s)) = users s"
      by (simp add: createUser_bad_role [OF nm nf ra] respond_def logCall_def)
  qed
  from iff400 keep created refused show ?thesis by (intro conjI)
qed

text \<open>
  The claim as stated fails: every required field is present, the store is empty, and
  the role \<^verbatim>\<open>superadmin\<close> is outside the enum, so the answer is 500, neither 400 nor 201.
\<close>

theorem createUser_outcomes_counterexample:
  "body_firstName rootBody = Some ''Carol'' \<and> body_lastName rootBody = Some ''Petit'' \<and>
   body_email rootBody = Some ''carol@example.org'' \<and> body_phone rootBody = Some ''0603'' \<and>
   body_password rootBody = Some ''s3cret'' \<and> users emptyStore = [] \<and>
   status (fst (createUser marker_bcrypt env1 rootBody emptyStore)) = 500 \<and>
   users (snd (createUser marker_bcrypt env1 rootBody emptyStore)) = []"
  by code_simp

lemma carol_status: "status (fst (createUser marker_bcrypt env1 carolBody demoStore)) = 201"
  by code_simp

lemma createUser_example_statuses:
  "status (fst (createUser marker_bcrypt env1 (carolBody\<lparr>body_phone := Some []\<rparr>) demoStore)) = 400"
  "status (fst (createUser marker_bcrypt env1
      (carolBody\<lparr>body_email := Some ''alice@example.org''\<rparr>) demoStore)) = 400"
  "status (fst (createUser marker_bcrypt env1 rootBody demoStore)) = 500"
  by code_simp+

theorem createUser_outcomes_witness:
  "status (fst (createUser marker_bcrypt env1 carolBody demoStore)) = 201 \<and>
   users (snd (createUser marker_bcrypt env1 carolBody demoStore)) =
     [alice, bob,
      \<lparr>user_id = ''64b0000000000000000000c3'', firstName = ''Carol'', lastName = ''Petit'',
       email = ''carol@example.org'', phone = ''0603'', password = ''$s3cret'',
       role = ''user'', points = 0, bio = None, createdAt = 9000\<rparr>] \<and>
   data (json (fst (createUser marker_bcrypt env1 carolBody demoStore))) =
     Some (PUser [(''_id'', JStr ''64b0000000000000000000c3''), (''firstName'', JStr ''Carol''),
       (''lastName'', JStr ''Petit''), (''email'', JStr ''carol@example.org''),
       (''phone'', JStr ''0603''), (''role'', JStr ''user''), (''points'', JNum 0),
       (''createdAt'', JNum 9000)]) \<and>
   status (fst (createUser marker_bcrypt env1 (carolBody\<lparr>body_phone := Some []\<rparr>) demoStore)) = 400 \<and>
   users (snd (createUser marker_bcrypt env1 (carolBody\<lparr>body_phone := Some []\<rparr>) demoStore))
     = [alice, bob] \<and>
   status (fst (createUser marker_bcrypt env1
      (carolBody\<lparr>body_email := Some ''alice@example.org''\<rparr>) demoStore)) = 400 \<and>
   users (snd (createUser marker_bcrypt env1
      (carolBody\<lparr>body_email := Some ''alice@example.org''\<rparr>) demoStore)) = [alice, bob] \<and>
   status (fst (createUser marker_bcrypt env1 rootBody demoStore)) = 500 \<and>
   users (snd (createUser marker_bcrypt env1 rootBody demoStore)) = [alice, bob]"
proof -
  have pre: "body_role carolBody \<in> {None, Some [], Some ''user'', Some ''admin''} \<and>
    new_oid env1 \<notin> user_id ` set (users demoStore)"
    by (simp add: example_defs)
  have created: "status (fst (createUser marker_bcrypt env1 carolBody demoStore)) = 201 \<and>
   users (snd (createUser marker_bcrypt env1 carolBody demoStore)) =
     [alice, bob,
      \<lparr>user_id = ''64b0000000000000000000c3'', firstName = ''Carol'', lastName = ''Petit'',
       email = ''carol@example.org'', phone = ''0603'', password = ''$s3cret'',
       role = ''user'', points = 0, bio = None, createdAt = 9000\<rparr>] \<and>
   data (json (fst (createUser marker_bcrypt env1 carolBody demoStore))) =
     Some (PUser [(''_id'', JStr ''64b0000000000000000000c3''), (''firstName'', JStr ''Carol''),
       (''lastName'', JStr ''Petit''), (''email'', JStr ''carol@example.org''),
       (''phone'', JStr ''0603''), (''role'', JStr ''user''), (''points'', JNum 0),
       (''createdAt'', JNum 9000)])"
    using createUser_outcomes [of marker_bcrypt env1 carolBody demoStore] pre carol_status
    by (simp add: example_defs marker_bcrypt_def orElse_def toObject_def deleteProperty_def)
  have u: "users demoStore = [alice, bob]" by (simp add: demoStore_def)
  have missing: "users (snd (createUser marker_bcrypt env1 (carolBody\<lparr>body_phone := Some []\<rparr>) demoStore))
     = [alice, bob]"
    using createUser_outcomes [of marker_bcrypt env1 "carolBody\<lparr>body_phone := Some []\<rparr>" demoStore]
      createUser_example_statuses(1) u by simp
  have conflict: "users (snd (createUser marker_bcrypt env1
      (carolBody\<lparr>body_email := Some ''alice@example.org''\<rparr>) demoStore)) = [alice, bob]"
    using createUser_outcomes [of marker_bcrypt env1
        "carolBody\<lparr>body_email := Some ''alice@example.org''\<rparr>" demoStore]
      createUser_example_statuses(2) u by simp
  have role: "body_role rootBody \<notin> {None, Some [], Some ''user'', Some ''admin''}"
    by (simp add: example_defs)
  have refused: "users (snd (createUser marker_bcrypt env1 rootBody demoStore)) = [alice, bob]"
    using createUser_outcomes [of marker_bcrypt env1 rootBody demoStore]
      createUser_example_statuses(3) u role by simp
  from created missing conflict refused createUser_example_statuses show ?thesis by simp
qed

section \<open>Saving a user: the password hash\<close>

lemma find_append_None: "find P xs = None \<Longrightarrow> find P (xs @ ys) = find P ys"
  by (induction xs) (auto split: if_splits)

lemma findById_append_new:
  "i \<notin> user_id ` set us \<Longrightarrow> user_id v = i \<Longrightarrow> findById (us @ [v]) i = Some v"
  unfolding findById_def by (induction us) auto

lemma findById_replaceById:
  "findById us i = Some old \<Longrightarrow> user_id v = i \<Longrightarrow> findById (replaceById i v us) i = Some v"
  unfolding findById_def by (induction us) (auto split: if_splits)

lemma copyPath_user_id: "user_id (copyPath src p tgt) = user_id tgt"
  by (simp add: copyPath_def)

lemma copyPaths_user_id: "user_id (copyPaths ps src tgt) = user_id tgt"
  unfolding copyPaths_def by (induction ps) (simp_all add: copyPath_user_id)

lemma copyPath_password:
  "password (copyPath src p tgt) = (if p = ''password'' then password src else password tgt)"
  by (simp add: copyPath_def)

lemma copyPaths_password:
  "password (copyPaths ps src tgt) = (if ''password'' \<in> set ps then password src else password tgt)"
  unfolding copyPaths_def by (induction ps) (simp_all add: copyPath_password)

lemma findById_user_id: "findById us i = Some u \<Longrightarrow> user_id u = i"
  unfolding findById_def by (induction us) (auto split: if_splits)

lemma save_Inr_new:
  assumes "save bc slt d s = (Inr d', s')" and "isNew d"
  shows "users s' = users s @ [doc (pre_save bc slt d)] \<and>
         user_id (doc d) \<notin> user_id ` set (users s)"
  using assms
  by (auto simp: save_def Let_def pre_save_keeps logCall_def split: if_splits)

lemma save_Inr_loaded:
  assumes "save bc slt d s = (Inr d', s')" and "\<not> isNew d"
  shows "\<exists>old. findById (users s) (user_id (doc d)) = Some old \<and>
           users s' = replaceById (user_id (doc d))
             (copyPaths (modifiedPaths d) (doc (pre_save bc slt d)) old) (users s)"
  using assms
  by (auto simp: save_def Let_def pre_save_keeps logCall_def split: if_splits option.splits)

lemma pre_save_password:
  "password (doc (pre_save bc slt d)) =
     (if isModified d ''password'' then bcrypt_hash bc (password (doc d)) 12 slt
      else password (doc d))"
  by (simp add: pre_save_def)

lemma save_stored_password:
  assumes saved: "save bc slt d s = (Inr d', s')"
  shows "\<exists>u. findById (users s') (user_id (doc d)) = Some u \<and>
     password u =
       (if isModified d ''password'' then bcrypt_hash bc (password (doc d)) 12 slt
        else if isNew d then password (doc d)
        else password (the (findById (users s) (user_id (doc d)))))"
proof (cases "isNew d")
  case True
  from save_Inr_new [OF saved True]
  have us: "users s' = users s @ [doc (pre_save bc slt d)]"
    and fresh: "user_id (doc d) \<notin> user_id ` set (users s)" by simp_all
  have "findById (users s') (user_id (doc d)) = Some (doc (pre_save bc slt d))"
    unfolding us by (rule findById_append_new [OF fresh]) (simp add: pre_save_keeps)
  then show ?thesis using True by (simp add: pre_save_password)
next
  case False
  from save_Inr_loaded [OF saved False] obtain old where
    old: "findById (users s) (user_id (doc d)) = Some old"
    and us: "users s' = replaceById (user_id (doc d))
             (copyPaths (modifiedPaths d) (doc (pre_save bc slt d)) old) (users s)"
    by blast
  have "findById (users s') (user_id (doc d)) =
      Some (copyPaths (modifiedPaths d) (doc (pre_save bc slt d)) old)"
    unfolding us
    by (rule findById_replaceById [OF old]) (simp add: copyPaths_user_id findById_user_id [OF old])
  then show ?thesis
    using False old by (simp add: copyPaths_password pre_save_password isModified_def)
qed

text \<open>
  C2. Take any bcrypt whose cost-12 hash never returns its own input. After a save
  that succeeds, the stored record of the document has, when the password path was
  set or changed (\<open>isModified\<close>), the password \<^verbatim>\<open>bcrypt.hash(plaintext, 12)\<close>, which is
  not the plaintext; when the path was not modified the hook leaves the document as it
  is and the stored password is the one that was there (for a loaded document, the
  stored hash is unchanged).
\<close>

theorem save_hashes_changed_password:
  assumes nofix: "\<forall>p slt. bcrypt_hash bc p 12 slt \<noteq> p"
    and saved: "save bc slt d s = (Inr d', s')"
  shows "\<exists>u. findById (users s') (user_id (doc d)) = Some u \<and>
     (isModified d ''password'' \<longrightarrow>
        password u = bcrypt_hash bc (password (doc d)) 12 slt \<and>
        password u \<noteq> password (doc d)) \<and>
     (\<not> isModified d ''password'' \<longrightarrow>
        pre_save bc slt d = d \<and>
        (isNew d \<longrightarrow> password u = password (doc d)) \<and>
        (\<not> isNew d \<longrightarrow>
           (\<exists>old. findById (users s) (user_id (doc d)) = Some old \<and> password u = password old)))"
proof -
  from save_stored_password [OF saved] obtain u where
    u: "findById (users s') (user_id (doc d)) = Some u"
    and pw: "password u =
       (if isModified d ''password'' then bcrypt_hash bc (password (doc d)) 12 slt
        else if isNew d then password (doc d)
        else password (the (findById (users s) (user_id (doc d)))))"
    by blast
  have old: "\<not> isNew d \<longrightarrow> (\<exists>old. findById (users s) (user_id (doc d)) = Some old)"
    using save_Inr_loaded [OF saved] by blast
  have "pre_save bc slt d = d" if "\<not> isModified d ''password''"
    using that by (simp add: pre_save_def)
  with u pw old nofix show ?thesis by auto
qed

lemma marker_nofix: "\<forall>p slt. bcrypt_hash marker_bcrypt p 12 slt \<noteq> p"
  by (simp add: marker_bcrypt_def)

lemma marker_contract:
  "\<forall>c p slt. bcrypt_compare marker_bcrypt c (bcrypt_hash marker_bcrypt p 12 slt)
     \<longleftrightarrow> bcrypt_hash marker_bcrypt c 12 slt = bcrypt_hash marker_bcrypt p 12 slt"
  by (auto simp: marker_bcrypt_def)

theorem save_hashes_changed_password_witness:
  "(\<exists>u. findById (users (snd (save marker_bcrypt ''NaCl'' (newUserOf env1 carolBody) demoStore)))
           ''64b0000000000000000000c3'' = Some u \<and>
        isModified (newUserOf env1 carolBody) ''password'' \<and>
        password (doc (newUserOf env1 carolBody)) = ''s3cret'' \<and>
        password u = ''$s3cret'') \<and>
   (\<exists>u. findById (users (snd (save marker_bcrypt ''NaCl'' bobLoaded demoStore))) ''64b0000000000000000000b2'' = Some u \<and>
        \<not> isModified bobLoaded ''password'' \<and>
        password u = password bob \<and> bio u = Some ''champion'')"
proof -
  obtain d1 s1 where e1:
    "save marker_bcrypt ''NaCl'' (newUserOf env1 carolBody) demoStore = (Inr d1, s1)"
    by (simp add: save_def Let_def example_defs newUserOf_def new_User_def validates_def
        pre_save_def isModified_def logCall_def marker_bcrypt_def orElse_def)
  obtain d2 s2 where e2: "save marker_bcrypt ''NaCl'' bobLoaded demoStore = (Inr d2, s2)"
    by (simp add: save_def Let_def example_defs validates_def findById_def
        pre_save_def isModified_def logCall_def marker_bcrypt_def copyPaths_def copyPath_def)
  have m1: "isModified (newUserOf env1 carolBody) ''password'' \<and>
        password (doc (newUserOf env1 carolBody)) = ''s3cret'' \<and>
        user_id (doc (newUserOf env1 carolBody)) = ''64b0000000000000000000c3''"
    by (simp add: newUserOf_def new_User_def isModified_def example_defs)
  have m2: "\<not> isModified bobLoaded ''password'' \<and> \<not> isNew bobLoaded \<and>
        user_id (doc bobLoaded) = ''64b0000000000000000000b2'' \<and>
        findById (users demoStore) ''64b0000000000000000000b2'' = Some bob"
    by (simp add: isModified_def example_defs findById_def)
  have b2: "\<exists>u. findById (users s2) ''64b0000000000000000000b2'' = Some u \<and> bio u = Some ''champion''"
    using e2
    by (auto simp: save_def Let_def example_defs validates_def findById_def
        pre_save_def isModified_def logCall_def marker_bcrypt_def copyPaths_def copyPath_def)
  from save_hashes_changed_password [OF marker_nofix e1] m1
  have c1: "\<exists>u. findById (users s1) ''64b0000000000000000000c3'' = Some u \<and> password u = ''$s3cret''"
    by (auto simp: marker_bcrypt_def)
  from save_hashes_changed_password [OF marker_nofix e2] m2 b2
  have c2: "\<exists>u. findById (users s2) ''64b0000000000000000000b2'' = Some u \<and> password u = password bob \<and>
      bio u = Some ''champion''"
    by auto
  from c1 c2 m1 m2 show ?thesis by (simp add: e1 e2)
qed

section \<open>Verifying a password\<close>

lemma createUser_201:
  assumes "status (fst (createUser bc e b s)) = 201"
  shows "\<not> requiredMissing b \<and> find (\<lambda>u. email u = the (body_email b)) (users s) = None \<and>
         roleAccepted b \<and> new_oid e \<notin> user_id ` set (users s)"
proof -
  have nm: "\<not> requiredMissing b"
    using assms by (auto simp: createUser_missing respond_def)
  have nf: "find (\<lambda>u. email u = the (body_email b)) (users s) = None"
    using assms nm by (cases "find (\<lambda>u. email u = the (body_email b)) (users s)")
      (auto simp: createUser_conflict respond_def)
  have ra: "roleAccepted b"
  proof (rule ccontr)
    assume "\<not> roleAccepted b"
    from createUser_bad_role [OF nm nf this, of bc e] assms show False
      by (simp add: respond_def)
  qed
  have fresh: "new_oid e \<notin> user_id ` set (users s)"
  proof
    assume "new_oid e \<in> user_id ` set (users s)"
    from createUser_dup_id [OF nm nf ra this, of bc] assms show False
      by (simp add: respond_def)
  qed
  from nm nf ra fresh show ?thesis by simp
qed

text \<open>
  C8. Take any bcrypt whose \<open>compare\<close> accepts a candidate against a cost-12 hash
  exactly when the candidate hashes, with the same salt, to that hash. When
  \<open>createUser\<close> answers 201 for a body whose password is \<open>p\<close>, the store holds the new
  user (found by the generated id and by the email), its password is
  \<^verbatim>\<open>bcrypt.hash(p, 12)\<close>, \<open>comparePassword\<close> accepts \<open>p\<close>, and it accepts a candidate
  exactly when the candidate hashes to the stored hash.
\<close>

theorem created_user_verifies_password:
  assumes contract:
      "\<forall>c p slt. bcrypt_compare bc c (bcrypt_hash bc p 12 slt)
         \<longleftrightarrow> bcrypt_hash bc c 12 slt = bcrypt_hash bc p 12 slt"
    and created: "status (fst (createUser bc e b s)) = 201"
    and pw: "body_password b = Some p"
  shows "\<exists>u. findById (users (snd (createUser bc e b s))) (new_oid e) = Some u \<and>
     find (\<lambda>x. email x = the (body_email b)) (users (snd (createUser bc e b s))) = Some u \<and>
     password u = bcrypt_hash bc p 12 (salt e) \<and>
     comparePassword bc u p \<and>
     (\<forall>c. comparePassword bc u c \<longleftrightarrow> bcrypt_hash bc c 12 (salt e) = password u)"
proof -
  from createUser_201 [OF created] have nm: "\<not> requiredMissing b"
    and nf: "find (\<lambda>u. email u = the (body_email b)) (users s) = None"
    and ra: "roleAccepted b" and fresh: "new_oid e \<notin> user_id ` set (users s)"
    by simp_all
  define u where "u = createdUser bc e b"
  have us: "users (snd (createUser bc e b s)) = users s @ [u]"
    by (simp add: createUser_created [OF nm nf ra fresh] u_def)
  have uf: "user_id u = new_oid e" "email u = the (body_email b)"
    "password u = bcrypt_hash bc p 12 (salt e)"
    using pw by (simp_all add: u_def createdUser_fields)
  have byid: "findById (users (snd (createUser bc e b s))) (new_oid e) = Some u"
    unfolding us by (rule findById_append_new [OF fresh uf(1)])
  have byemail: "find (\<lambda>x. email x = the (body_email b)) (users (snd (createUser bc e b s))) = Some u"
    unfolding us by (simp add: find_append_None [OF nf] uf)
  have cmp: "comparePassword bc u c \<longleftrightarrow> bcrypt_hash bc c 12 (salt e) = password u" for c
    using contract by (simp add: comparePassword_def uf)
  from byid byemail uf(3) cmp show ?thesis by auto
qed

theorem created_user_verifies_password_witness:
  "status (fst (createUser marker_bcrypt env1 carolBody demoStore)) = 201 \<and>
   body_password carolBody = Some ''s3cret'' \<and>
   (\<exists>u. findById (users (snd (createUser marker_bcrypt env1 carolBody demoStore))) ''64b0000000000000000000c3'' = Some u \<and>
        password u = ''$s3cret'' \<and>
        comparePassword marker_bcrypt u ''s3cret'' \<and>
        \<not> comparePassword marker_bcrypt u ''secret'')"
proof -
  have pw: "body_password carolBody = Some ''s3cret''" by (simp add: carolBody_def)
  from created_user_verifies_password [OF marker_contract carol_status pw]
  show ?thesis
    using carol_status pw by (auto simp: env1_def marker_bcrypt_def)
qed

section \<open>What the answers carry\<close>

lemma map_replaceById:
  "findById us i = Some u \<Longrightarrow> f v = f u \<Longrightarrow> map f (replaceById i v us) = map f us"
  unfolding findById_def by (induction us) (auto split: if_splits)

lemma writeUpdate_cases:
  "(users (snd (writeUpdate oid b u v s)) = users s \<and>
    fst (writeUpdate oid b u v s) \<in> range Inl) \<or>
   (fst (writeUpdate oid b u v s) = Inr (Some (projectOut ''password'' (v\<lparr>user_id := user_id u\<rparr>))) \<and>
    users (snd (writeUpdate oid b u v s)) = replaceById oid (v\<lparr>user_id := user_id u\<rparr>) (users s))"
  by (simp add: writeUpdate_def Let_def)

lemma updatedDocument_plain:
  "handedOver b = [] \<Longrightarrow> updatedDocument mg b found = Inr (map_option (applyUpdate mg b) found)"
  by (simp add: updatedDocument_def)

lemma applyUpdate_user_id: "user_id (applyUpdate mg b u) = user_id u"
  by (simp add: applyUpdate_def)

text \<open>
  What \<open>User_findByIdAndUpdate\<close> can do: nothing to the users, or replace the document
  found by one of the same \<^verbatim>\<open>_id\<close>, which for a plain body is the body's assignment.
\<close>

lemma User_findByIdAndUpdate_cases:
  "(users (snd (User_findByIdAndUpdate mg i b s)) = users s \<and>
    fst (User_findByIdAndUpdate mg i b s) \<in> range Inl \<union> {Inr None}) \<or>
   (\<exists>oid u w. castObjectId i = Some oid \<and> findById (users s) oid = Some u \<and>
        \<not> castFails mg b \<and> user_id w = user_id u \<and>
        (handedOver b = [] \<longrightarrow> w = applyUpdate mg b u) \<and>
        fst (User_findByIdAndUpdate mg i b s) = Inr (Some (projectOut ''password'' w)) \<and>
        users (snd (User_findByIdAndUpdate mg i b s)) = replaceById oid w (users s))"
proof (cases "\<exists>oid u v. castObjectId i = Some oid \<and> \<not> castFails mg b \<and>
    findById (users s) oid = Some u \<and> updatedDocument mg b (Some u) = Inr (Some v)")
  case False
  then have "users (snd (User_findByIdAndUpdate mg i b s)) = users s \<and>
    fst (User_findByIdAndUpdate mg i b s) \<in> range Inl \<union> {Inr None}"
    by (auto simp: User_findByIdAndUpdate_def Let_def logCall_def
        split: option.splits sum.splits)
  then show ?thesis by blast
next
  case True
  then obtain oid u v where c: "castObjectId i = Some oid" and nf: "\<not> castFails mg b"
    and found: "findById (users s) oid = Some u"
    and upd: "updatedDocument mg b (Some u) = Inr (Some v)"
    by blast
  define w where "w = v\<lparr>user_id := user_id u\<rparr>"
  define s0 where "s0 = logCall (UserFindByIdAndUpdate i) s"
  have res: "User_findByIdAndUpdate mg i b s = writeUpdate oid b u v s0"
    using c nf found upd by (simp add: User_findByIdAndUpdate_def Let_def s0_def)
  have us0: "users s0 = users s" by (simp add: s0_def logCall_def)
  have wplain: "handedOver b = [] \<longrightarrow> w = applyUpdate mg b u"
    using upd by (auto simp: updatedDocument_plain w_def applyUpdate_user_id)
  have idw: "user_id w = user_id u" by (simp add: w_def)
  from writeUpdate_cases [of oid b u v s0] show ?thesis
  proof
    assume "users (snd (writeUpdate oid b u v s0)) = users s0 \<and>
      fst (writeUpdate oid b u v s0) \<in> range Inl"
    then show ?thesis by (auto simp: res us0)
  next
    assume "fst (writeUpdate oid b u v s0) = Inr (Some (projectOut ''password'' (v\<lparr>user_id := user_id u\<rparr>))) \<and>
      users (snd (writeUpdate oid b u v s0)) = replaceById oid (v\<lparr>user_id := user_id u\<rparr>) (users s0)"
    then have "fst (User_findByIdAndUpdate mg i b s) = Inr (Some (projectOut ''password'' w)) \<and>
      users (snd (User_findByIdAndUpdate mg i b s)) = replaceById oid w (users s)"
      by (simp add: res us0 w_def)
    with c nf found wplain idw show ?thesis by blast
  qed
qed

lemma updateUser_fst_snd:
  "users (snd (updateUser mg i b s)) = users (snd (User_findByIdAndUpdate mg i (dropPassword b) s)) \<and>
   data (json (fst (updateUser mg i b s))) =
     (case fst (User_findByIdAndUpdate mg i (dropPassword b) s) of
        Inr (Some obj) \<Rightarrow> Some (PUser obj) | _ \<Rightarrow> None) \<and>
   (status (fst (updateUser mg i b s)) = 200 \<longleftrightarrow>
      (\<exists>obj. fst (User_findByIdAndUpdate mg i (dropPassword b) s) = Inr (Some obj)))"
  by (cases "User_findByIdAndUpdate mg i (dropPassword b) s")
    (auto simp: updateUser_def Let_def respond_def ApiResponse_def split: sum.splits option.splits)

lemma updateUser_users:
  "users (snd (updateUser mg i b s)) = users s \<or>
   (\<exists>oid u w. castObjectId i = Some oid \<and> findById (users s) oid = Some u \<and>
        user_id w = user_id u \<and>
        (handedOver (dropPassword b) = [] \<longrightarrow> w = applyUpdate mg (dropPassword b) u) \<and>
        users (snd (updateUser mg i b s)) = replaceById oid w (users s))"
  using User_findByIdAndUpdate_cases [of mg i "dropPassword b" s] updateUser_fst_snd [of mg i b s]
  by auto

lemma updateUser_data:
  "data (json (fst (updateUser mg i b s))) = None \<or>
   (\<exists>u. data (json (fst (updateUser mg i b s))) = Some (PUser (projectOut ''password'' u)))"
  using User_findByIdAndUpdate_cases [of mg i "dropPassword b" s] updateUser_fst_snd [of mg i b s]
  by auto

lemma createUser_data:
  "data (json (fst (createUser bc e b s))) = None \<or>
   (\<exists>obj. data (json (fst (createUser bc e b s))) = Some (PUser (deleteProperty ''password'' obj)))"
  by (auto simp: createUser_def Let_def respond_def ApiResponse_def
      split: prod.splits sum.splits)

lemma getAllUsers_data:
  "data (json (fst (getAllUsers s))) = Some (PUsers (map (projectOut ''password'') (users s)))"
  by (simp add: getAllUsers_def User_find_def respond_def ApiResponse_def)

lemma projectOut_lacks: "\<not> hasProperty (projectOut k u) k"
  by (auto simp: hasProperty_def projectOut_def)

lemma deleteProperty_lacks: "\<not> hasProperty (deleteProperty k obj) k"
  by (auto simp: hasProperty_def deleteProperty_def)

lemma toObject_has_password: "hasProperty (toObject u) ''password''"
  by (simp add: hasProperty_def toObject_def)

text \<open>
  C5. Whatever the store holds and whatever the request carries, no user object in the
  answer of \<open>getAllUsers\<close>, \<open>createUser\<close> or \<open>updateUser\<close> has a \<open>password\<close> property:
  the two queries project it out and \<open>createUser\<close> deletes it from the object it
  answers with.
\<close>

theorem responses_carry_no_password:
  "\<not> carriesPassword (fst (getAllUsers s)) \<and>
   \<not> carriesPassword (fst (createUser bc e b s)) \<and>
   \<not> carriesPassword (fst (updateUser mg i ub s))"
proof -
  have "\<not> carriesPassword (fst (getAllUsers s))"
    by (auto simp: carriesPassword_def responseObjects_def getAllUsers_data projectOut_lacks)
  moreover have "\<not> carriesPassword (fst (createUser bc e b s))"
    using createUser_data [of bc e b s]
    by (auto simp: carriesPassword_def responseObjects_def deleteProperty_lacks)
  moreover have "\<not> carriesPassword (fst (updateUser mg i ub s))"
    using updateUser_data [of mg i ub s]
    by (auto simp: carriesPassword_def responseObjects_def projectOut_lacks)
  ultimately show ?thesis by simp
qed

theorem responses_carry_no_password_witness:
  "responseObjects (fst (getAllUsers demoStore)) =
     [[(''_id'', JStr ''64b0000000000000000000a1''), (''firstName'', JStr ''Alice''), (''lastName'', JStr ''Martin''),
       (''email'', JStr ''alice@example.org''), (''phone'', JStr ''0601''),
       (''role'', JStr ''admin''), (''points'', JNum 0), (''createdAt'', JNum 1000)],
      [(''_id'', JStr ''64b0000000000000000000b2''), (''firstName'', JStr ''Bob''), (''lastName'', JStr ''Durand''),
       (''email'', JStr ''bob@example.org''), (''phone'', JStr ''0602''),
       (''role'', JStr ''user''), (''points'', JNum 40), (''bio'', JStr ''player''),
       (''createdAt'', JNum 2000)]] \<and>
   hasProperty (toObject alice) ''password'' \<and>
   \<not> carriesPassword (fst (getAllUsers demoStore)) \<and>
   responseObjects (fst (updateUser strictMongoose ''64b0000000000000000000b2'' newPasswordBody demoStore)) =
     [[(''_id'', JStr ''64b0000000000000000000b2''), (''firstName'', JStr ''Robert''), (''lastName'', JStr ''Durand''),
       (''email'', JStr ''bob@example.org''), (''phone'', JStr ''0602''),
       (''role'', JStr ''user''), (''points'', JNum 40), (''bio'', JStr ''player''),
       (''createdAt'', JNum 2000)]] \<and>
   \<not> carriesPassword (fst (updateUser strictMongoose ''64b0000000000000000000b2'' newPasswordBody demoStore))"
proof -
  have objs: "responseObjects (fst (getAllUsers demoStore)) =
     [[(''_id'', JStr ''64b0000000000000000000a1''), (''firstName'', JStr ''Alice''), (''lastName'', JStr ''Martin''),
       (''email'', JStr ''alice@example.org''), (''phone'', JStr ''0601''),
       (''role'', JStr ''admin''), (''points'', JNum 0), (''createdAt'', JNum 1000)],
      [(''_id'', JStr ''64b0000000000000000000b2''), (''firstName'', JStr ''Bob''), (''lastName'', JStr ''Durand''),
       (''email'', JStr ''bob@example.org''), (''phone'', JStr ''0602''),
       (''role'', JStr ''user''), (''points'', JNum 40), (''bio'', JStr ''player''),
       (''createdAt'', JNum 2000)]]"
    by code_simp
  have upd: "responseObjects (fst (updateUser strictMongoose ''64b0000000000000000000b2'' newPasswordBody demoStore)) =
     [[(''_id'', JStr ''64b0000000000000000000b2''), (''firstName'', JStr ''Robert''), (''lastName'', JStr ''Durand''),
       (''email'', JStr ''bob@example.org''), (''phone'', JStr ''0602''),
       (''role'', JStr ''user''), (''points'', JNum 40), (''bio'', JStr ''player''),
       (''createdAt'', JNum 2000)]]"
    by code_simp
  from responses_carry_no_password [of demoStore marker_bcrypt env1 carolBody strictMongoose
      "''64b0000000000000000000b2''" newPasswordBody]
    objs upd toObject_has_password [of alice]
  show ?thesis by simp
qed

section \<open>Updating a user\<close>

lemma map_of_filter_key:
  "P p \<Longrightarrow> map_of (filter (\<lambda>kv. P (fst kv)) b) p = map_of b p"
  by (induction b) auto

lemma map_of_dropPassword:
  "p \<noteq> ''password'' \<Longrightarrow> map_of (dropPassword b) p = map_of b p"
  using map_of_filter_key [of "\<lambda>k. k \<noteq> ''password''" p b] by (simp add: dropPassword_def)

lemma setArgument_dropPassword: "setArgument (dropPassword b) = setArgument b"
  by (simp add: setArgument_def map_of_dropPassword)

lemma assigned_dropPassword:
  "p \<noteq> ''password'' \<Longrightarrow> assigned (dropPassword b) p = assigned b p"
  by (simp add: assigned_def map_of_dropPassword setArgument_dropPassword
      split: option.splits body_value.splits)

lemma handedOver_dropPassword: "handedOver b = [] \<Longrightarrow> handedOver (dropPassword b) = []"
  by (auto simp: handedOver_def dropPassword_def filter_empty_conv)

lemma assigned_None:
  "\<not> namesPath b p \<Longrightarrow> assigned b p = None"
  by (simp add: namesPath_def assigned_def)

lemma applyUpdate_createdAt:
  "assigned b ''createdAt'' = None \<Longrightarrow> createdAt (applyUpdate mg b u) = createdAt u"
  by (simp add: applyUpdate_def)

lemma applyUpdate_password:
  "assigned b ''password'' = None \<Longrightarrow> password (applyUpdate mg b u) = password u"
  by (simp add: applyUpdate_def setString_def)

text \<open>A plain body that does not name \<open>createdAt\<close> leaves every creation time as it was.\<close>

lemma updateUser_frame_createdAt:
  assumes "\<not> namesPath b ''createdAt''" and "plainBody b"
  shows "creationTimes (snd (updateUser mg i b s)) = creationTimes s"
proof -
  have plain: "handedOver (dropPassword b) = []"
    using assms(2) by (simp add: plainBody_def handedOver_dropPassword)
  have none: "assigned (dropPassword b) ''createdAt'' = None"
    using assms(1) by (simp add: assigned_dropPassword assigned_None)
  from updateUser_users [of mg i b s] show ?thesis
  proof
    assume "users (snd (updateUser mg i b s)) = users s"
    then show ?thesis by (simp add: creationTimes_def)
  next
    assume "\<exists>oid u w. castObjectId i = Some oid \<and> findById (users s) oid = Some u \<and>
        user_id w = user_id u \<and>
        (handedOver (dropPassword b) = [] \<longrightarrow> w = applyUpdate mg (dropPassword b) u) \<and>
        users (snd (updateUser mg i b s)) = replaceById oid w (users s)"
    then obtain oid u w where u: "findById (users s) oid = Some u"
      and w: "w = applyUpdate mg (dropPassword b) u"
      and us: "users (snd (updateUser mg i b s)) = replaceById oid w (users s)"
      using plain by blast
    have "(user_id w, createdAt w) = (user_id u, createdAt u)"
      by (simp add: w applyUpdate_createdAt [OF none] applyUpdate_user_id)
    from map_replaceById [OF u, of "\<lambda>u. (user_id u, createdAt u)", OF this]
    show ?thesis by (simp add: creationTimes_def us)
  qed
qed

text \<open>
  A plain body with a number for \<open>createdAt\<close>: when the answer is 200 the target has
  that creation time.
\<close>

lemma updateUser_sets_createdAt:
  assumes ok: "status (fst (updateUser mg i b s)) = 200"
    and plainb: "plainBody b"
    and t: "map_of b ''createdAt'' = Some (Scalar (JNum t))"
  shows "\<exists>oid u. castObjectId i = Some oid \<and>
     findById (users (snd (updateUser mg i b s))) oid = Some u \<and> createdAt u = t"
proof -
  define b' where "b' = dropPassword b"
  have plain: "handedOver b' = []"
    using plainb by (simp add: b'_def plainBody_def handedOver_dropPassword)
  have "assigned b ''createdAt'' = Some (JNum t)"
    using t by (simp add: assigned_def)
  then have asg: "assigned b' ''createdAt'' = Some (JNum t)"
    by (simp add: b'_def assigned_dropPassword)
  from ok updateUser_fst_snd [of mg i b s] obtain obj where
    obj: "fst (User_findByIdAndUpdate mg i b' s) = Inr (Some obj)"
    unfolding b'_def by blast
  from User_findByIdAndUpdate_cases [of mg i b' s] obj obtain oid u w where
    c: "castObjectId i = Some oid" and u: "findById (users s) oid = Some u"
    and nf: "\<not> castFails mg b'" and idw: "user_id w = user_id u"
    and w: "w = applyUpdate mg b' u"
    and us: "users (snd (User_findByIdAndUpdate mg i b' s)) = replaceById oid w (users s)"
    using plain by auto
  have cast: "castDate mg (JNum t) = Some t"
    using nf asg by (auto simp: castFails_def castDate_def split: if_splits)
  have cw: "createdAt w = t"
    by (simp add: w applyUpdate_def asg cast)
  have "user_id w = oid" using idw findById_user_id [OF u] by simp
  from findById_replaceById [OF u this]
  have "findById (users (snd (updateUser mg i b s))) oid = Some w"
    using updateUser_fst_snd [of mg i b s] us by (simp add: b'_def)
  with c cw show ?thesis by blast
qed

text \<open>
  C9, as the code has it. A created user has the clock's value as creation time.
  \<open>updateUser\<close> leaves the stored creation time of every user as it was whenever the
  request body is plain (no update operator other than \<^verbatim>\<open>$set\<close>, no schema path given an
  object) and names \<open>createdAt\<close> neither as a property nor under \<^verbatim>\<open>$set\<close>. The path is
  not immutable: when the body is plain, has a number for \<open>createdAt\<close> and the answer
  is 200, the target's stored creation time is that number.
\<close>

theorem updateUser_keeps_createdAt:
  "(status (fst (createUser bc e cb s0)) = 201 \<longrightarrow>
      (\<exists>u. findById (users (snd (createUser bc e cb s0))) (new_oid e) = Some u \<and>
           createdAt u = now e)) \<and>
   (plainBody b \<and> \<not> namesPath b ''createdAt'' \<longrightarrow>
      creationTimes (snd (updateUser mg i b s)) = creationTimes s) \<and>
   (plainBody b \<and> map_of b ''createdAt'' = Some (Scalar (JNum t)) \<and>
    status (fst (updateUser mg i b s)) = 200 \<longrightarrow>
      (\<exists>oid u. castObjectId i = Some oid \<and>
         findById (users (snd (updateUser mg i b s))) oid = Some u \<and> createdAt u = t))"
proof -
  have created: "status (fst (createUser bc e cb s0)) = 201 \<longrightarrow>
      (\<exists>u. findById (users (snd (createUser bc e cb s0))) (new_oid e) = Some u \<and>
           createdAt u = now e)"
  proof
    assume c: "status (fst (createUser bc e cb s0)) = 201"
    from createUser_201 [OF c] have nm: "\<not> requiredMissing cb"
      and nf: "find (\<lambda>u. email u = the (body_email cb)) (users s0) = None"
      and ra: "roleAccepted cb" and fresh: "new_oid e \<notin> user_id ` set (users s0)"
      by simp_all
    have us: "users (snd (createUser bc e cb s0)) = users s0 @ [createdUser bc e cb]"
      by (simp add: createUser_created [OF nm nf ra fresh])
    have "findById (users (snd (createUser bc e cb s0))) (new_oid e) = Some (createdUser bc e cb)"
      unfolding us by (rule findById_append_new [OF fresh]) (simp add: createdUser_fields)
    then show "\<exists>u. findById (users (snd (createUser bc e cb s0))) (new_oid e) = Some u \<and>
           createdAt u = now e"
      by (simp add: createdUser_fields)
  qed
  have frame: "plainBody b \<and> \<not> namesPath b ''createdAt'' \<longrightarrow>
      creationTimes (snd (updateUser mg i b s)) = creationTimes s"
    by (simp add: updateUser_frame_createdAt)
  have sets: "plainBody b \<and> map_of b ''createdAt'' = Some (Scalar (JNum t)) \<and>
    status (fst (updateUser mg i b s)) = 200 \<longrightarrow>
      (\<exists>oid u. castObjectId i = Some oid \<and>
         findById (users (snd (updateUser mg i b s))) oid = Some u \<and> createdAt u = t)"
    using updateUser_sets_createdAt [of mg i b s t] by blast
  from created frame sets show ?thesis by (intro conjI)
qed

lemma update_examples:
  "status (fst (updateUser strictMongoose ''64b0000000000000000000b2'' backdateBody demoStore)) = 200"
  "creationTimes (snd (updateUser strictMongoose ''64b0000000000000000000b2'' backdateBody demoStore))
     = [(''64b0000000000000000000a1'', 1000), (''64b0000000000000000000b2'', 0)]"
  "map firstName (users (snd (updateUser strictMongoose ''64b0000000000000000000b2'' renameBody demoStore)))
     = [''Alice'', ''Robert'']"
  "castObjectId ''64b0000000000000000000b2'' = Some ''64b0000000000000000000b2''"
  by code_simp+

theorem updateUser_keeps_createdAt_witness:
  "status (fst (createUser marker_bcrypt env1 carolBody demoStore)) = 201 \<and>
   (\<exists>u. findById (users (snd (createUser marker_bcrypt env1 carolBody demoStore)))
           ''64b0000000000000000000c3'' = Some u \<and> createdAt u = 9000) \<and>
   plainBody renameBody \<and> \<not> namesPath renameBody ''createdAt'' \<and>
   creationTimes demoStore
     = [(''64b0000000000000000000a1'', 1000), (''64b0000000000000000000b2'', 2000)] \<and>
   creationTimes (snd (updateUser strictMongoose ''64b0000000000000000000b2'' renameBody demoStore))
     = [(''64b0000000000000000000a1'', 1000), (''64b0000000000000000000b2'', 2000)] \<and>
   map firstName (users (snd (updateUser strictMongoose ''64b0000000000000000000b2'' renameBody demoStore)))
     = [''Alice'', ''Robert''] \<and>
   plainBody backdateBody \<and> map_of backdateBody ''createdAt'' = Some (Scalar (JNum 0)) \<and>
   status (fst (updateUser strictMongoose ''64b0000000000000000000b2'' backdateBody demoStore)) = 200 \<and>
   (\<exists>u. findById (users (snd (updateUser strictMongoose ''64b0000000000000000000b2''
            backdateBody demoStore))) ''64b0000000000000000000b2'' = Some u \<and> createdAt u = 0)"
proof -
  have a: "plainBody renameBody \<and> \<not> namesPath renameBody ''createdAt'' \<and>
      plainBody backdateBody \<and> map_of backdateBody ''createdAt'' = Some (Scalar (JNum 0))"
    by (simp add: plainBody_def handedOver_def namesPath_def setArgument_def isObject_def
        example_defs)
  have b: "creationTimes demoStore
     = [(''64b0000000000000000000a1'', 1000), (''64b0000000000000000000b2'', 2000)]"
    by (simp add: creationTimes_def example_defs)
  have e: "new_oid env1 = ''64b0000000000000000000c3'' \<and> now env1 = 9000"
    by (simp add: env1_def)
  from updateUser_keeps_createdAt [of marker_bcrypt env1 carolBody demoStore renameBody
      strictMongoose "''64b0000000000000000000b2''" demoStore 0]
    updateUser_keeps_createdAt [of marker_bcrypt env1 carolBody demoStore backdateBody
      strictMongoose "''64b0000000000000000000b2''" demoStore 0]
    a b e carol_status update_examples
  show ?thesis by simp
qed

text \<open>
  The claim as stated fails: a body that carries \<open>createdAt\<close> changes the stored
  creation time of the target user.
\<close>

theorem updateUser_keeps_createdAt_counterexample:
  "creationTimes demoStore
     = [(''64b0000000000000000000a1'', 1000), (''64b0000000000000000000b2'', 2000)] \<and>
   status (fst (updateUser strictMongoose ''64b0000000000000000000b2'' backdateBody demoStore)) = 200 \<and>
   creationTimes (snd (updateUser strictMongoose ''64b0000000000000000000b2'' backdateBody demoStore))
     = [(''64b0000000000000000000a1'', 1000), (''64b0000000000000000000b2'', 0)]"
  by code_simp

text \<open>
  The body \<^verbatim>\<open>{"$set": {"createdAt": 0}}\<close> has no \<open>createdAt\<close> property and changes the
  creation time all the same: the handler passes update operators through.
\<close>

lemma updateUser_set_operator_backdates:
  "map_of setBackdateBody ''createdAt'' = None \<and>
   status (fst (updateUser strictMongoose ''64b0000000000000000000b2'' setBackdateBody demoStore)) = 200 \<and>
   creationTimes (snd (updateUser strictMongoose ''64b0000000000000000000b2'' setBackdateBody demoStore))
     = [(''64b0000000000000000000a1'', 1000), (''64b0000000000000000000b2'', 0)]"
  by code_simp

text \<open>
  A plain update whose body has a truthy password, or none, and names no password
  under \<^verbatim>\<open>$set\<close>, leaves every stored password as it was: the truthy password is
  dropped before the store is called.
\<close>

lemma updateUser_keeps_password:
  assumes "truthy (map_of b ''password'') \<or> map_of b ''password'' = None"
    and "map_of (setArgument b) ''password'' = None" and "plainBody b"
  shows "storedPasswords (snd (updateUser mg i b s)) = storedPasswords s"
proof -
  have plain: "handedOver (dropPassword b) = []"
    using assms(3) by (simp add: plainBody_def handedOver_dropPassword)
  have top: "map_of (dropPassword b) ''password'' = None"
  proof (cases "truthy (map_of b ''password'')")
    case True
    then have "dropPassword b = filter (\<lambda>kv. fst kv \<noteq> ''password'') b"
      by (simp add: dropPassword_def)
    then show ?thesis by (auto simp: map_of_eq_None_iff)
  next
    case False
    with assms(1) show ?thesis by (simp add: dropPassword_def)
  qed
  have none: "assigned (dropPassword b) ''password'' = None"
    using top assms(2) by (simp add: assigned_def setArgument_dropPassword)
  from updateUser_users [of mg i b s] show ?thesis
  proof
    assume "users (snd (updateUser mg i b s)) = users s"
    then show ?thesis by (simp add: storedPasswords_def)
  next
    assume "\<exists>oid u w. castObjectId i = Some oid \<and> findById (users s) oid = Some u \<and>
        user_id w = user_id u \<and>
        (handedOver (dropPassword b) = [] \<longrightarrow> w = applyUpdate mg (dropPassword b) u) \<and>
        users (snd (updateUser mg i b s)) = replaceById oid w (users s)"
    then obtain oid u w where u: "findById (users s) oid = Some u"
      and w: "w = applyUpdate mg (dropPassword b) u"
      and us: "users (snd (updateUser mg i b s)) = replaceById oid w (users s)"
      using plain by blast
    have "(user_id w, password w) = (user_id u, password u)"
      by (simp add: w applyUpdate_password [OF none] applyUpdate_user_id)
    from map_replaceById [OF u, of "\<lambda>u. (user_id u, password u)", OF this]
    show ?thesis by (simp add: storedPasswords_def us)
  qed
qed

text \<open>
  C1 fails on the code at the body \<^verbatim>\<open>{"password": ""}\<close>: the empty string is falsy, so
  the guard \<^verbatim>\<open>if (updateData.password)\<close> does not delete the property, and the update
  sets the stored password of the target to the empty string. The stored hash is
  lost, and \<open>comparePassword\<close> then compares every candidate with the empty string
  instead of the hash.
\<close>

theorem updateUser_empty_password_overwrites_hash:
  "map_of emptyPasswordBody ''password'' = Some (Scalar (JStr [])) \<and>
   dropPassword emptyPasswordBody = emptyPasswordBody \<and>
   storedPasswords demoStore =
     [(''64b0000000000000000000a1'', ''$2a$12$abcdefghijklmnopqrstuuABCDEFGHIJKLMNOPQRSTUVWXYZ01234''),
      (''64b0000000000000000000b2'', ''$2a$12$zyxwvutsrqponmlkjihgfe43210ZYXWVUTSRQPONMLKJIHGFEDCBA'')] \<and>
   status (fst (updateUser mg ''64b0000000000000000000b2'' emptyPasswordBody demoStore)) = 200 \<and>
   storedPasswords (snd (updateUser mg ''64b0000000000000000000b2'' emptyPasswordBody demoStore)) =
     [(''64b0000000000000000000a1'', ''$2a$12$abcdefghijklmnopqrstuuABCDEFGHIJKLMNOPQRSTUVWXYZ01234''),
      (''64b0000000000000000000b2'', [])] \<and>
   comparePassword bc
     (last (users (snd (updateUser mg ''64b0000000000000000000b2'' emptyPasswordBody demoStore)))) p
     = bcrypt_compare bc p []"
proof -
  have d: "dropPassword emptyPasswordBody = emptyPasswordBody"
    by (simp add: dropPassword_def truthy_def emptyPasswordBody_def)
  have c: "castObjectId ''64b0000000000000000000b2'' = Some ''64b0000000000000000000b2''"
    by code_simp
  have nf: "\<not> castFails mg emptyPasswordBody"
    by (simp add: castFails_def malformed_def assigned_def setArgument_def isOperator_def
        emptyPasswordBody_def)
  have h: "handedOver emptyPasswordBody = []"
    by (simp add: handedOver_def isObject_def emptyPasswordBody_def)
  have f: "findById (users demoStore) ''64b0000000000000000000b2'' = Some bob"
    by (simp add: findById_def example_defs)
  have a: "applyUpdate mg emptyPasswordBody bob = bob\<lparr>password := []\<rparr>"
    by (simp add: applyUpdate_def setString_def assigned_def setArgument_def castString_def
        emptyPasswordBody_def bob_def)
  have ch: "\<not> changesId emptyPasswordBody bob"
    by (simp add: changesId_def assigned_def setArgument_def emptyPasswordBody_def)
  have res: "updateUser mg ''64b0000000000000000000b2'' emptyPasswordBody demoStore =
     (respond 200 (ApiResponse 200 UserUpdated
        (Some (PUser (projectOut ''password'' (bob\<lparr>password := []\<rparr>))))),
      (logCall (UserFindByIdAndUpdate ''64b0000000000000000000b2'') demoStore)
        \<lparr>users := [alice, bob\<lparr>password := []\<rparr>]\<rparr>)"
    by (simp add: updateUser_def d User_findByIdAndUpdate_def c nf f updatedDocument_def h a
        writeUpdate_def ch Let_def logCall_def)
      (simp add: example_defs)
  show ?thesis
    by (simp add: res d respond_def comparePassword_def storedPasswords_def)
      (simp add: example_defs)
qed

text \<open>
  The same happens for the other falsy values and for a password under \<^verbatim>\<open>$set\<close>:
  \<^verbatim>\<open>0\<close> and \<^verbatim>\<open>false\<close> are kept, cast to strings and stored, and
  \<^verbatim>\<open>{"$set": {"password": "x"}}\<close> stores the plaintext.
\<close>

lemma updateUser_other_password_bodies:
  "map password (users (snd (updateUser strictMongoose ''64b0000000000000000000b2''
      [(''password'', Scalar (JNum 0))] demoStore))) = [password alice, ''0''] \<and>
   map password (users (snd (updateUser strictMongoose ''64b0000000000000000000b2''
      [(''password'', Scalar (JBool False))] demoStore))) = [password alice, ''false''] \<and>
   map password (users (snd (updateUser strictMongoose ''64b0000000000000000000b2''
      [(''$set'', Object [(''password'', JStr ''x'')])] demoStore))) = [password alice, ''x'']"
  by code_simp

end
